theory Spec2Isabelle
  imports Main "HOL-Library.Word"
begin

unbundle bit_operations_syntax

section \<open>The interrupt-driven AES-128 CTR pump of \<^verbatim>\<open>aes_ctr_128.c\<close>\<close>

text \<open>
  The file holds three functions: \<^verbatim>\<open>AesCtr128\<close> (start a chunk), \<^verbatim>\<open>AES_IRQHandler\<close>
  (one completion interrupt) and \<^verbatim>\<open>AesFinished\<close> (poll the flag). They communicate through
  seven file-scope statics. The embedding passes one \<open>state\<close> record around: the statics,
  the byte-addressed memory the pointers refer to, and the registers of the AES peripheral
  and of the interrupt controller.
\<close>

subsection \<open>Machine types and memory\<close>

type_synonym u8 = "8 word"
type_synonym u16 = "16 word"
type_synonym u32 = "32 word"

text \<open>
  Memory is byte addressed; a pointer is its 32-bit address and pointer arithmetic wraps
  at \<open>2^32\<close>. A \<^verbatim>\<open>uint32_t\<close> access is little-endian over four consecutive bytes
  (Cortex-M3), so overlapping and unaligned buffers behave as on the target.
\<close>

type_synonym memory = "u32 \<Rightarrow> u8"

definition load32 :: "memory \<Rightarrow> u32 \<Rightarrow> u32" where
  "load32 m a =
     ucast (m a) OR push_bit 8 (ucast (m (a + 1))) OR
     push_bit 16 (ucast (m (a + 2))) OR push_bit 24 (ucast (m (a + 3)))"

definition store32 :: "memory \<Rightarrow> u32 \<Rightarrow> u32 \<Rightarrow> memory" where
  "store32 m a v =
     m(a := ucast v, a + 1 := ucast (drop_bit 8 v),
       a + 2 := ucast (drop_bit 16 v), a + 3 := ucast (drop_bit 24 v))"

text \<open>
  Modelled from the spec: \<^verbatim>\<open>__REV\<close> is an intrinsic of a header that is not part of the
  sources. It is the endianness transform applied to every word moved to or from the
  engine: the four bytes of the word in reverse order.
\<close>

definition REV :: "u32 \<Rightarrow> u32" where
  "REV w =
     push_bit 24 (w AND 0xFF) OR push_bit 8 (w AND 0xFF00) OR
     (drop_bit 8 w AND 0xFF00) OR drop_bit 24 w"

subsection \<open>Constants of the device header\<close>

text \<open>
  \<^verbatim>\<open>em_device.h\<close> is not part of the sources. The register masks and the interrupt number
  it defines are taken as a parameter of the model.
\<close>

record em_device =
  AES_IFC_DONE :: u32
  AES_IEN_DONE :: u32
  AES_CTRL_KEYBUFEN :: u32
  AES_CTRL_DATASTART :: u32
  AES_IRQn :: u32

subsection \<open>The block engine\<close>

text \<open>
  Modelled from the spec: the AES peripheral (the spec's BlockEngine) is hardware and has no
  source. It holds a 128-bit key buffer and a 128-bit data register, each accessed one
  32-bit word at a time through a single register address: a write shifts a word in, a read
  of \<^verbatim>\<open>DATA\<close> takes the next word out. A write to \<^verbatim>\<open>DATA\<close> (re)starts the transform on the
  register's contents (the "start on data write" mode); when the transform completes, the
  register holds the output and the completion flag is raised (the flag that a write of
  \<^verbatim>\<open>AES_IFC_DONE\<close> to \<^verbatim>\<open>IFC\<close> clears). The transform itself is the opaque parameter
  \<open>E\<close>, from the key buffer and the submitted block to the output block. \<^verbatim>\<open>CTRL\<close> and
  \<^verbatim>\<open>IEN\<close> are plain registers: the model describes an armed engine and does not make the
  start of a transform or the delivery of its completion depend on their contents.
\<close>

type_synonym block = "u32 \<times> u32 \<times> u32 \<times> u32"
type_synonym cipher = "block \<Rightarrow> block \<Rightarrow> block"

record AES_TypeDef =
  AES_CTRL :: u32
  AES_IEN :: u32
  AES_IF :: u32
  AES_KEY :: block
  AES_DATA :: block
  AES_RUNNING :: bool

fun shift_in :: "u32 \<Rightarrow> block \<Rightarrow> block" where
  "shift_in w (a, b, c, d) = (b, c, d, w)"

fun shift_out :: "block \<Rightarrow> u32 \<times> block" where
  "shift_out (a, b, c, d) = (a, (b, c, d, a))"

definition write_IFC :: "u32 \<Rightarrow> AES_TypeDef \<Rightarrow> AES_TypeDef" where
  "write_IFC v e = e\<lparr>AES_IF := AES_IF e AND NOT v\<rparr>"

definition write_IEN :: "u32 \<Rightarrow> AES_TypeDef \<Rightarrow> AES_TypeDef" where
  "write_IEN v e = e\<lparr>AES_IEN := v\<rparr>"

definition write_CTRL :: "u32 \<Rightarrow> AES_TypeDef \<Rightarrow> AES_TypeDef" where
  "write_CTRL v e = e\<lparr>AES_CTRL := v\<rparr>"

definition write_KEYHA :: "u32 \<Rightarrow> AES_TypeDef \<Rightarrow> AES_TypeDef" where
  "write_KEYHA v e = e\<lparr>AES_KEY := shift_in v (AES_KEY e)\<rparr>"

definition write_DATA :: "u32 \<Rightarrow> AES_TypeDef \<Rightarrow> AES_TypeDef" where
  "write_DATA v e = e\<lparr>AES_DATA := shift_in v (AES_DATA e), AES_RUNNING := True\<rparr>"

definition read_DATA :: "AES_TypeDef \<Rightarrow> u32 \<times> AES_TypeDef" where
  "read_DATA e = (fst (shift_out (AES_DATA e)), e\<lparr>AES_DATA := snd (shift_out (AES_DATA e))\<rparr>)"

text \<open>
  The completion of a running transform. \<open>None\<close>: nothing was submitted, so no completion
  event can occur.
\<close>

definition engine_complete :: "em_device \<Rightarrow> cipher \<Rightarrow> AES_TypeDef \<Rightarrow> AES_TypeDef option" where
  "engine_complete dev E e =
     (if AES_RUNNING e
      then Some (e\<lparr>AES_DATA := E (AES_KEY e) (AES_DATA e), AES_RUNNING := False,
                   AES_IF := AES_IF e OR AES_IFC_DONE dev\<rparr>)
      else None)"

subsection \<open>The statics and the world around them\<close>

text \<open>
  Modelled from the spec: the type \<^verbatim>\<open>AES_CtrFuncPtr_TypeDef\<close> is declared in a header that
  is not part of the sources. By the call \<^verbatim>\<open>ctrFuncG(ctr8)\<close> and the spec's CounterStrategy
  it points to a C function that takes the address of the counter and returns nothing; as
  any C function it may read and write memory. \<open>None\<close> is the null pointer, the value of
  \<^verbatim>\<open>ctrFuncG\<close> before the first initialising call.
\<close>

type_synonym AES_CtrFuncPtr_TypeDef = "(u32 \<Rightarrow> memory \<Rightarrow> memory) option"

text \<open>
  The first seven fields are the statics of the file, in the order of their declaration.
  \<open>mem\<close> is the memory the pointers refer to; the statics and the peripheral registers
  are not part of it, so no buffer overlaps them. \<open>NVIC_ISER\<close> is the bank of
  interrupt set-enable registers. \<open>ctrFuncCalls\<close> is instrumentation: it counts the calls
  made through \<^verbatim>\<open>ctrFuncG\<close> and is read by no function of the model.
\<close>

record state =
  numberOfBlocks :: u16
  blockIndex :: u16
  outputDataG :: u32
  inputDataG :: u32
  ctrG :: u32
  ctrFuncG :: AES_CtrFuncPtr_TypeDef
  aesFinished :: bool
  mem :: memory
  AES :: AES_TypeDef
  NVIC_ISER :: "nat \<Rightarrow> u32"
  ctrFuncCalls :: nat

subsection \<open>\<^verbatim>\<open>AES_IRQHandler\<close>\<close>

text \<open>One iteration of \<^verbatim>\<open>outputDataG[i] = __REV(AES->DATA) ^ inputDataG[i]\<close>.\<close>

definition xor_step :: "nat \<Rightarrow> state \<Rightarrow> state" where
  "xor_step i s =
     (let (w, e) = read_DATA (AES s)
      in s\<lparr>mem := store32 (mem s) (outputDataG s + 4 * of_nat i)
                    (REV w XOR load32 (mem s) (inputDataG s + 4 * of_nat i)),
           AES := e\<rparr>)"

text \<open>One iteration of \<^verbatim>\<open>AES->DATA = __REV(ctrG[i])\<close>.\<close>

definition load_step :: "nat \<Rightarrow> state \<Rightarrow> state" where
  "load_step i s =
     s\<lparr>AES := write_DATA (REV (load32 (mem s) (ctrG s + 4 * of_nat i))) (AES s)\<rparr>"

text \<open>The two loops of the handler, \<^verbatim>\<open>for (i = 3; i >= 0; i--)\<close>, over the indices 3, 2, 1, 0.\<close>

definition xor_loop :: "state \<Rightarrow> state" where
  "xor_loop s = fold xor_step [3, 2, 1, 0] s"

definition load_loop :: "state \<Rightarrow> state" where
  "load_loop s = fold load_step [3, 2, 1, 0] s"

text \<open>
  The handler. \<open>None\<close>: the call through \<^verbatim>\<open>ctrFuncG\<close> went through a null pointer.
  \<^verbatim>\<open>blockIndex++\<close> wraps at \<open>2^16\<close>.
\<close>

definition AES_IRQHandler :: "em_device \<Rightarrow> state \<Rightarrow> state option" where
  "AES_IRQHandler dev s0 =
     (let s1 = s0\<lparr>AES := write_IFC (AES_IFC_DONE dev) (AES s0)\<rparr>
      in if blockIndex s1 < numberOfBlocks s1
         then (case ctrFuncG s1 of
                 None \<Rightarrow> None
               | Some f \<Rightarrow>
                   let s2 = s1\<lparr>mem := f (ctrG s1) (mem s1),
                               ctrFuncCalls := ctrFuncCalls s1 + 1\<rparr>;
                       s3 = xor_loop s2;
                       s4 = s3\<lparr>outputDataG := outputDataG s3 + 16,
                               inputDataG := inputDataG s3 + 16\<rparr>;
                       s5 = load_loop s4
                   in Some (s5\<lparr>blockIndex := blockIndex s5 + 1\<rparr>))
         else Some (s1\<lparr>aesFinished := True, blockIndex := blockIndex s1 + 1\<rparr>))"

subsection \<open>\<^verbatim>\<open>AesCtr128\<close> and \<^verbatim>\<open>AesFinished\<close>\<close>

text \<open>One iteration of \<^verbatim>\<open>AES->KEYHA = __REV(key32[i])\<close>.\<close>

definition key_step :: "u32 \<Rightarrow> nat \<Rightarrow> state \<Rightarrow> state" where
  "key_step key i s =
     s\<lparr>AES := write_KEYHA (REV (load32 (mem s) (key + 4 * of_nat i))) (AES s)\<rparr>"

definition key_loop :: "u32 \<Rightarrow> state \<Rightarrow> state" where
  "key_loop key s = fold (key_step key) [3, 2, 1, 0] s"

text \<open>
  \<^verbatim>\<open>NVIC->ISER[n >> 5] = 1 << (n & 0x1F)\<close>: the set-enable register sets the bits written
  as one and keeps the others.
\<close>

definition write_ISER :: "u32 \<Rightarrow> (nat \<Rightarrow> u32) \<Rightarrow> (nat \<Rightarrow> u32)" where
  "write_ISER n r =
     r(unat (drop_bit 5 n) := r (unat (drop_bit 5 n)) OR push_bit (unat (n AND 0x1F)) 1)"

text \<open>
  The function returns \<^verbatim>\<open>void\<close> and has no failing path. The pointers \<open>key\<close>,
  \<open>inputData\<close>, \<open>outputData\<close> and \<open>ctr\<close> are addresses; \<open>blockNumber\<close> is a
  \<^verbatim>\<open>uint32_t\<close> and its assignment to the \<^verbatim>\<open>uint16_t\<close> static keeps the low 16 bits.
\<close>

definition AesCtr128 ::
  "em_device \<Rightarrow> u32 \<Rightarrow> u32 \<Rightarrow> u32 \<Rightarrow> u32 \<Rightarrow> u32 \<Rightarrow> AES_CtrFuncPtr_TypeDef \<Rightarrow> bool \<Rightarrow>
   state \<Rightarrow> state" where
  "AesCtr128 dev key inputData outputData blockNumber ctr ctrFunc initDecryption s0 =
     (let s1 = s0\<lparr>inputDataG := inputData, outputDataG := outputData\<rparr>;
          s2 = (if initDecryption
                then let a = s1\<lparr>ctrG := ctr, ctrFuncG := ctrFunc\<rparr>;
                         a' = a\<lparr>AES := write_IFC (AES_IFC_DONE dev) (AES a)\<rparr>;
                         b = a'\<lparr>AES := write_IEN (AES_IEN_DONE dev) (AES a')\<rparr>;
                         c = b\<lparr>NVIC_ISER := write_ISER (AES_IRQn dev) (NVIC_ISER b)\<rparr>;
                         d = c\<lparr>AES := write_CTRL
                                         (AES_CTRL_KEYBUFEN dev OR AES_CTRL_DATASTART dev)
                                         (AES c)\<rparr>
                     in key_loop key d
                else s1);
          s3 = s2\<lparr>numberOfBlocks := ucast blockNumber, blockIndex := 0,
                  aesFinished := False\<rparr>
      in load_loop s3)"

definition AesFinished :: "state \<Rightarrow> bool" where
  "AesFinished s = aesFinished s"

subsection \<open>Completion events\<close>

text \<open>
  A completion event: the engine finishes the running transform and the interrupt handler
  runs. \<open>events k\<close> delivers \<open>k\<close> events one after the other; it is \<open>None\<close> when one of
  them cannot occur (nothing is running) or the handler calls a null pointer. A call of
  \<^verbatim>\<open>AesCtr128\<close> and an invocation of the handler each run to their end: a handler that
  preempts \<^verbatim>\<open>AesCtr128\<close> half way is not modelled.
\<close>

definition completion_event :: "em_device \<Rightarrow> cipher \<Rightarrow> state \<Rightarrow> state option" where
  "completion_event dev E s =
     (case engine_complete dev E (AES s) of
        None \<Rightarrow> None
      | Some e \<Rightarrow> AES_IRQHandler dev (s\<lparr>AES := e\<rparr>))"

fun events :: "em_device \<Rightarrow> cipher \<Rightarrow> nat \<Rightarrow> state \<Rightarrow> state option" where
  "events dev E 0 s = Some s"
| "events dev E (Suc k) s =
     (case events dev E k s of None \<Rightarrow> None | Some s' \<Rightarrow> completion_event dev E s')"

subsection \<open>Notions used to state the properties\<close>

text \<open>
  The 128-bit value at address \<open>p\<close> as the loops \<^verbatim>\<open>AES->DATA = __REV(ctrG[i])\<close> and
  \<^verbatim>\<open>AES->KEYHA = __REV(key32[i])\<close> move it into the engine: word 3 first, every word byte
  reversed.
\<close>

definition ctr_block :: "memory \<Rightarrow> u32 \<Rightarrow> block" where
  "ctr_block m p =
     (REV (load32 m (p + 12)), REV (load32 m (p + 8)), REV (load32 m (p + 4)), REV (load32 m p))"

text \<open>
  The memory after the loop \<^verbatim>\<open>outputDataG[i] = __REV(AES->DATA) ^ inputDataG[i]\<close> has run
  on the engine output \<open>d\<close>: four stores, each reading the memory the previous one left.
\<close>

definition xor_mem :: "block \<Rightarrow> u32 \<Rightarrow> u32 \<Rightarrow> memory \<Rightarrow> memory" where
  "xor_mem d out inp m =
     (case d of (d0, d1, d2, d3) \<Rightarrow>
        let m3 = store32 m (out + 12) (REV d0 XOR load32 m (inp + 12));
            m2 = store32 m3 (out + 8) (REV d1 XOR load32 m3 (inp + 8));
            m1 = store32 m2 (out + 4) (REV d2 XOR load32 m2 (inp + 4))
        in store32 m1 out (REV d3 XOR load32 m1 inp))"

text \<open>The word of an engine output block that the loop reads in its iteration \<open>i\<close>.\<close>

definition engine_word :: "block \<Rightarrow> nat \<Rightarrow> u32" where
  "engine_word d i =
     (case d of (d0, d1, d2, d3) \<Rightarrow>
        if i = 3 then d0 else if i = 2 then d1 else if i = 1 then d2 else d3)"

text \<open>The four words of the block at address \<open>a\<close>, word 0 first.\<close>

definition mem_block :: "memory \<Rightarrow> u32 \<Rightarrow> block" where
  "mem_block m a = (load32 m a, load32 m (a + 4), load32 m (a + 8), load32 m (a + 12))"

text \<open>
  The combine step on whole blocks: the engine output, in the order its words are read,
  with an input block. The word read first goes to word 3; every engine word is byte
  reversed.
\<close>

fun combine :: "block \<Rightarrow> block \<Rightarrow> block" where
  "combine (d0, d1, d2, d3) (x0, x1, x2, x3) =
     (REV d3 XOR x0, REV d2 XOR x1, REV d1 XOR x2, REV d0 XOR x3)"

text \<open>The addresses of the \<open>n\<close> bytes from \<open>a\<close> on.\<close>

definition region :: "u32 \<Rightarrow> nat \<Rightarrow> u32 set" where
  "region a n = (\<lambda>i. a + of_nat i) ` {..<n}"

text \<open>
  The contract of a counter function for the counter at \<open>p\<close>: it writes nothing but the 16
  bytes of the counter, and what it writes there depends on nothing but those 16 bytes.
\<close>

definition counter_strategy :: "(u32 \<Rightarrow> memory \<Rightarrow> memory) \<Rightarrow> u32 \<Rightarrow> bool" where
  "counter_strategy f p \<longleftrightarrow>
     (\<forall>m a. a \<notin> region p 16 \<longrightarrow> f p m a = m a) \<and>
     (\<forall>m m'. (\<forall>a \<in> region p 16. m a = m' a) \<longrightarrow> (\<forall>a \<in> region p 16. f p m a = f p m' a))"

text \<open>
  The engine's output for the counter submitted for block \<open>i\<close> of a chunk that starts with
  memory \<open>m\<close>: the counter after \<open>i\<close> applications of the counter function.
\<close>

definition keystream ::
  "cipher \<Rightarrow> block \<Rightarrow> (u32 \<Rightarrow> memory \<Rightarrow> memory) \<Rightarrow> u32 \<Rightarrow> memory \<Rightarrow> nat \<Rightarrow> block" where
  "keystream E key f p m i = E key (ctr_block ((f p ^^ i) m) p)"

text \<open>
  The memory after \<open>k\<close> blocks of a chunk have been processed, from the memory \<open>m\<close> at
  the call: each round calls the counter function and runs the combine loop on the engine's
  output for the counter as it was before that call.
\<close>

fun blocks_mem ::
  "cipher \<Rightarrow> block \<Rightarrow> (u32 \<Rightarrow> memory \<Rightarrow> memory) \<Rightarrow> u32 \<Rightarrow> u32 \<Rightarrow> u32 \<Rightarrow> memory \<Rightarrow> nat \<Rightarrow> memory" where
  "blocks_mem E key f p inp out m 0 = m"
| "blocks_mem E key f p inp out m (Suc k) =
     xor_mem (E key (ctr_block (blocks_mem E key f p inp out m k) p))
       (out + 16 * of_nat k) (inp + 16 * of_nat k)
       (f p (blocks_mem E key f p inp out m k))"

text \<open>
  The state at start-up, before any call: C initialises the statics to zero, so the pointers
  are null and the flag is false. Memory and the peripherals are as the hardware left them.
\<close>

definition startup :: "memory \<Rightarrow> AES_TypeDef \<Rightarrow> (nat \<Rightarrow> u32) \<Rightarrow> state" where
  "startup m e r =
     \<lparr>numberOfBlocks = 0, blockIndex = 0, outputDataG = 0, inputDataG = 0, ctrG = 0,
      ctrFuncG = None, aesFinished = False, mem = m, AES = e, NVIC_ISER = r,
      ctrFuncCalls = 0\<rparr>"

subsection \<open>Inputs for evaluating the model\<close>

text \<open>
  The header values of the EFM32 Giant Gecko and an engine after reset, used where a
  property is evaluated on a concrete state.
\<close>

definition efm32gg :: em_device where
  "efm32gg = \<lparr>AES_IFC_DONE = 1, AES_IEN_DONE = 1, AES_CTRL_KEYBUFEN = 4,
              AES_CTRL_DATASTART = 0x10, AES_IRQn = 36\<rparr>"

definition engine_reset :: AES_TypeDef where
  "engine_reset = \<lparr>AES_CTRL = 0, AES_IEN = 0, AES_IF = 0, AES_KEY = (0, 0, 0, 0),
                   AES_DATA = (0, 0, 0, 0), AES_RUNNING = False\<rparr>"

text \<open>A counter function for the examples: it increments the last byte of the counter.\<close>

definition ctr_inc8 :: "u32 \<Rightarrow> memory \<Rightarrow> memory" where
  "ctr_inc8 p m = m(p + 15 := m (p + 15) + 1)"

text \<open>
  A memory that is zero but for the first byte of two consecutive input blocks, in external
  memory.
\<close>

definition two_blocks :: memory where
  "two_blocks = (\<lambda>a. 0)(0x80000000 := 0x5A, 0x80000010 := 0xA5)"

section \<open>Properties\<close>

subsection \<open>The loops and the two functions in closed form\<close>

lemma load_loop_eq:
  "load_loop s =
     s\<lparr>AES := (AES s)\<lparr>AES_DATA := ctr_block (mem s) (ctrG s), AES_RUNNING := True\<rparr>\<rparr>"
  by (cases "AES_DATA (AES s)") (simp add: load_loop_def load_step_def write_DATA_def ctr_block_def)

lemma key_loop_eq:
  "key_loop key s = s\<lparr>AES := (AES s)\<lparr>AES_KEY := ctr_block (mem s) key\<rparr>\<rparr>"
  by (cases "AES_KEY (AES s)") (simp add: key_loop_def key_step_def write_KEYHA_def ctr_block_def)

lemma xor_loop_eq:
  "xor_loop s = s\<lparr>mem := xor_mem (AES_DATA (AES s)) (outputDataG s) (inputDataG s) (mem s)\<rparr>"
  by (cases "AES_DATA (AES s)")
     (simp add: xor_loop_def xor_step_def read_DATA_def xor_mem_def Let_def)

lemma AesCtr128_reuse_eq:
  "AesCtr128 dev key inp out n ctr f False s =
     s\<lparr>inputDataG := inp, outputDataG := out, numberOfBlocks := ucast n, blockIndex := 0,
       aesFinished := False,
       AES := (AES s)\<lparr>AES_DATA := ctr_block (mem s) (ctrG s), AES_RUNNING := True\<rparr>\<rparr>"
  by (simp add: AesCtr128_def load_loop_eq Let_def)

lemma AesCtr128_init_eq:
  "AesCtr128 dev key inp out n ctr f True s =
     s\<lparr>inputDataG := inp, outputDataG := out, ctrG := ctr, ctrFuncG := f,
       NVIC_ISER := write_ISER (AES_IRQn dev) (NVIC_ISER s),
       numberOfBlocks := ucast n, blockIndex := 0, aesFinished := False,
       AES := (AES s)\<lparr>AES_IF := AES_IF (AES s) AND NOT (AES_IFC_DONE dev),
                       AES_IEN := AES_IEN_DONE dev,
                       AES_CTRL := AES_CTRL_KEYBUFEN dev OR AES_CTRL_DATASTART dev,
                       AES_KEY := ctr_block (mem s) key,
                       AES_DATA := ctr_block (mem s) ctr, AES_RUNNING := True\<rparr>\<rparr>"
  by (simp add: AesCtr128_def load_loop_eq key_loop_eq Let_def write_IFC_def write_IEN_def
        write_CTRL_def)

lemma completion_event_block:
  assumes "AES_RUNNING (AES s)" "blockIndex s < numberOfBlocks s" "ctrFuncG s = Some f"
  shows "completion_event dev E s =
     Some (s\<lparr>mem := xor_mem (E (AES_KEY (AES s)) (AES_DATA (AES s))) (outputDataG s) (inputDataG s)
                      (f (ctrG s) (mem s)),
             ctrFuncCalls := ctrFuncCalls s + 1,
             outputDataG := outputDataG s + 16, inputDataG := inputDataG s + 16,
             AES := (AES s)\<lparr>AES_IF := (AES_IF (AES s) OR AES_IFC_DONE dev) AND NOT (AES_IFC_DONE dev),
                    AES_DATA := ctr_block
                      (xor_mem (E (AES_KEY (AES s)) (AES_DATA (AES s))) (outputDataG s) (inputDataG s)
                         (f (ctrG s) (mem s))) (ctrG s),
                    AES_RUNNING := True\<rparr>,
             blockIndex := blockIndex s + 1\<rparr>)"
  using assms
  by (simp add: completion_event_def engine_complete_def AES_IRQHandler_def Let_def write_IFC_def
        xor_loop_eq load_loop_eq)

lemma completion_event_last:
  assumes "AES_RUNNING (AES s)" "\<not> blockIndex s < numberOfBlocks s"
  shows "completion_event dev E s =
     Some (s\<lparr>AES := (AES s)\<lparr>AES_DATA := E (AES_KEY (AES s)) (AES_DATA (AES s)),
                    AES_RUNNING := False,
                    AES_IF := (AES_IF (AES s) OR AES_IFC_DONE dev) AND NOT (AES_IFC_DONE dev)\<rparr>,
             aesFinished := True, blockIndex := blockIndex s + 1\<rparr>)"
  using assms
  by (simp add: completion_event_def engine_complete_def AES_IRQHandler_def Let_def write_IFC_def)

lemma completion_event_idle: "\<not> AES_RUNNING (AES s) \<Longrightarrow> completion_event dev E s = None"
  by (simp add: completion_event_def engine_complete_def)

lemma AesCtr128_start:
  "blockIndex (AesCtr128 dev key inp out n ctr f init s) = 0 \<and>
   numberOfBlocks (AesCtr128 dev key inp out n ctr f init s) = ucast n \<and>
   \<not> aesFinished (AesCtr128 dev key inp out n ctr f init s) \<and>
   AES_RUNNING (AES (AesCtr128 dev key inp out n ctr f init s)) \<and>
   mem (AesCtr128 dev key inp out n ctr f init s) = mem s \<and>
   ctrFuncCalls (AesCtr128 dev key inp out n ctr f init s) = ctrFuncCalls s \<and>
   inputDataG (AesCtr128 dev key inp out n ctr f init s) = inp \<and>
   outputDataG (AesCtr128 dev key inp out n ctr f init s) = out \<and>
   AES_DATA (AES (AesCtr128 dev key inp out n ctr f init s)) =
     ctr_block (mem s) (ctrG (AesCtr128 dev key inp out n ctr f init s))"
  by (cases init) (simp_all add: AesCtr128_reuse_eq AesCtr128_init_eq)

subsection \<open>Word arithmetic\<close>

lemma AesCtr128_ctrFuncG_init:
  "ctrFuncG (AesCtr128 dev key inp out n ctr f True s) = f"
  by (simp add: AesCtr128_init_eq)

lemma u16_succ: "unat (b :: u16) < unat (n :: u16) \<Longrightarrow> unat (b + 1) = Suc (unat b)"
proof -
  assume "unat b < unat n"
  moreover have "unat n < 2 ^ 16" using unsigned_less [of n, where 'a = nat] by simp
  ultimately have "unat b + unat (1 :: u16) < 2 ^ LENGTH(16)" by simp
  then have "unat (b + 1) = unat b + unat (1 :: u16)" by (simp only: unat_add_lem)
  then show ?thesis by simp
qed

lemma u16_bound: "unat (n :: u16) < 65536"
  using unsigned_less [of n, where 'a = nat] by simp

lemma unat_ucast_u16: "unat (ucast (n :: u32) :: u16) = unat n mod 65536"
  by (simp add: unsigned_ucast_eq take_bit_eq_mod)

lemma of_nat_unat_u16: "(of_nat (unat (b :: u16)) :: u32) = ucast b"
  by simp

lemma u32_of_nat_inj:
  "i < 2 ^ 32 \<Longrightarrow> j < 2 ^ 32 \<Longrightarrow> (of_nat i :: u32) = of_nat j \<Longrightarrow> i = j"
  by (simp add: word_of_nat_eq_iff take_bit_nat_eq_self)

subsection \<open>The control state along a chunk\<close>

text \<open>
  From a state in which a chunk has just been started, the first \<open>numberOfBlocks\<close> events
  each process one block; the next one sets the flag and leaves the engine idle, so no
  further event can occur.
\<close>

lemma run_control:
  assumes "blockIndex s1 = 0" "\<not> aesFinished s1" "AES_RUNNING (AES s1)" "ctrFuncG s1 = Some f"
  shows "k \<le> unat (numberOfBlocks s1) \<Longrightarrow>
    \<exists>sk. events dev E k s1 = Some sk \<and> unat (blockIndex sk) = k \<and>
      numberOfBlocks sk = numberOfBlocks s1 \<and> \<not> aesFinished sk \<and> AES_RUNNING (AES sk) \<and>
      ctrFuncG sk = Some f \<and> ctrG sk = ctrG s1 \<and> ctrFuncCalls sk = ctrFuncCalls s1 + k \<and>
      inputDataG sk = inputDataG s1 + 16 * of_nat k \<and>
      outputDataG sk = outputDataG s1 + 16 * of_nat k \<and>
      AES_KEY (AES sk) = AES_KEY (AES s1)"
proof (induction k)
  case 0
  with assms show ?case by simp
next
  case (Suc k)
  then obtain sk where sk: "events dev E k s1 = Some sk" "unat (blockIndex sk) = k"
      "numberOfBlocks sk = numberOfBlocks s1" "\<not> aesFinished sk" "AES_RUNNING (AES sk)"
      "ctrFuncG sk = Some f" "ctrG sk = ctrG s1" "ctrFuncCalls sk = ctrFuncCalls s1 + k"
      "inputDataG sk = inputDataG s1 + 16 * of_nat k"
      "outputDataG sk = outputDataG s1 + 16 * of_nat k"
      "AES_KEY (AES sk) = AES_KEY (AES s1)"
    by auto
  from Suc.prems sk(2,3) have lt: "unat (blockIndex sk) < unat (numberOfBlocks sk)"
    by simp
  then have less: "blockIndex sk < numberOfBlocks sk"
    by (simp add: word_less_nat_alt)
  have succ: "unat (blockIndex sk + 1) = Suc k"
    using u16_succ [OF lt] sk(2) by simp
  show ?case
    by (simp add: sk completion_event_block [OF sk(5) less sk(6)] succ distrib_left)
qed

lemma run_finish:
  assumes "blockIndex s1 = 0" "\<not> aesFinished s1" "AES_RUNNING (AES s1)" "ctrFuncG s1 = Some f"
  shows "\<exists>sn s'. events dev E (unat (numberOfBlocks s1)) s1 = Some sn \<and>
      events dev E (Suc (unat (numberOfBlocks s1))) s1 = Some s' \<and>
      aesFinished s' \<and> blockIndex s' = numberOfBlocks s1 + 1 \<and>
      numberOfBlocks s' = numberOfBlocks s1 \<and> \<not> AES_RUNNING (AES s') \<and>
      mem s' = mem sn \<and> ctrFuncCalls s' = ctrFuncCalls s1 + unat (numberOfBlocks s1) \<and>
      ctrG s' = ctrG s1 \<and> ctrFuncG s' = Some f"
proof -
  obtain sn where sn: "events dev E (unat (numberOfBlocks s1)) s1 = Some sn"
      "unat (blockIndex sn) = unat (numberOfBlocks s1)"
      "numberOfBlocks sn = numberOfBlocks s1" "AES_RUNNING (AES sn)"
      "ctrFuncG sn = Some f" "ctrG sn = ctrG s1"
      "ctrFuncCalls sn = ctrFuncCalls s1 + unat (numberOfBlocks s1)"
    using run_control [OF assms, of "unat (numberOfBlocks s1)" dev E] by auto
  from sn(2) have eq: "blockIndex sn = numberOfBlocks s1"
    by (simp add: word_unat_eq_iff)
  with sn(3) have nl: "\<not> blockIndex sn < numberOfBlocks sn" by simp
  show ?thesis
    by (simp add: sn completion_event_last [OF sn(4) nl] eq)
qed

lemma events_None_mono: "events dev E k s = None \<Longrightarrow> k \<le> k' \<Longrightarrow> events dev E k' s = None"
  by (induction k') (auto simp: le_Suc_eq)

lemma run_stops:
  assumes "blockIndex s1 = 0" "\<not> aesFinished s1" "AES_RUNNING (AES s1)" "ctrFuncG s1 = Some f"
    and "unat (numberOfBlocks s1) + 1 < k"
  shows "events dev E k s1 = None"
proof -
  obtain s' where s': "events dev E (Suc (unat (numberOfBlocks s1))) s1 = Some s'"
      "\<not> AES_RUNNING (AES s')"
    using run_finish [OF assms(1-4), of dev E] by auto
  then have "events dev E (Suc (Suc (unat (numberOfBlocks s1)))) s1 = None"
    by (simp add: completion_event_idle)
  then show ?thesis
    using assms(5) by (elim events_None_mono) simp
qed

lemma reachable_cases:
  assumes "blockIndex s1 = 0" "\<not> aesFinished s1" "AES_RUNNING (AES s1)"
  shows "events dev E k s1 = Some s' \<Longrightarrow>
    numberOfBlocks s' = numberOfBlocks s1 \<and>
    (k \<le> unat (numberOfBlocks s1) \<and> unat (blockIndex s') = k \<and> \<not> aesFinished s' \<and>
       AES_RUNNING (AES s') \<and>
       inputDataG s' = inputDataG s1 + 16 * of_nat k \<and>
       outputDataG s' = outputDataG s1 + 16 * of_nat k
     \<or> k = Suc (unat (numberOfBlocks s1)) \<and> aesFinished s' \<and> \<not> AES_RUNNING (AES s') \<and>
       blockIndex s' = numberOfBlocks s1 + 1)"
proof (induction k arbitrary: s')
  case 0
  with assms show ?case by simp
next
  case (Suc k)
  from Suc.prems obtain sk where sk: "events dev E k s1 = Some sk"
      and ev: "completion_event dev E sk = Some s'"
    by (auto split: option.splits)
  from ev have run: "AES_RUNNING (AES sk)"
    by (auto simp: completion_event_def engine_complete_def split: if_splits)
  with Suc.IH [OF sk] have A: "numberOfBlocks sk = numberOfBlocks s1"
      "k \<le> unat (numberOfBlocks s1)" "unat (blockIndex sk) = k" "\<not> aesFinished sk"
      "inputDataG sk = inputDataG s1 + 16 * of_nat k"
      "outputDataG sk = outputDataG s1 + 16 * of_nat k"
    by auto
  show ?case
  proof (cases "k < unat (numberOfBlocks s1)")
    case True
    with A have lt: "unat (blockIndex sk) < unat (numberOfBlocks sk)" by simp
    then have less: "blockIndex sk < numberOfBlocks sk" by (simp add: word_less_nat_alt)
    from ev less obtain f where f: "ctrFuncG sk = Some f"
      by (cases "ctrFuncG sk")
         (auto simp: completion_event_def engine_complete_def AES_IRQHandler_def Let_def
            split: if_splits)
    have succ: "unat (blockIndex sk + 1) = Suc k"
      using u16_succ [OF lt] A(3) by simp
    from ev have "s' = the (completion_event dev E sk)" by simp
    then show ?thesis
      using True by (simp add: completion_event_block [OF run less f] A succ distrib_left)
  next
    case False
    with A have eq: "blockIndex sk = numberOfBlocks s1" "k = unat (numberOfBlocks s1)"
      by (simp_all add: word_unat_eq_iff)
    with A have nl: "\<not> blockIndex sk < numberOfBlocks sk" by simp
    from ev have "s' = the (completion_event dev E sk)" by simp
    then show ?thesis
      by (simp add: completion_event_last [OF run nl] A eq)
  qed
qed

subsection \<open>Byte regions, loads and stores\<close>

lemma region_iff: "x \<in> region a n \<longleftrightarrow> (\<exists>i<n. x = a + of_nat i)"
  by (auto simp: region_def)

lemma region_4: "region a 4 = {a, a + 1, a + 2, a + 3}"
proof -
  have "{..<4::nat} = {0, 1, 2, 3}" by auto
  then show ?thesis by (simp add: region_def)
qed

lemma region_mono: "n \<le> n' \<Longrightarrow> region a n \<subseteq> region a n'"
  by (auto simp: region_def)

lemma region_shift_subset: "k + n \<le> n' \<Longrightarrow> region (a + of_nat k) n \<subseteq> region a n'"
proof
  fix x assume le: "k + n \<le> n'" and "x \<in> region (a + of_nat k) n"
  then obtain i where "i < n" "x = a + of_nat k + of_nat i"
    by (auto simp: region_iff)
  then have "k + i < n'" "x = a + of_nat (k + i)"
    using le by simp_all
  then show "x \<in> region a n'"
    unfolding region_iff by blast
qed

lemma region_shift_disjoint:
  assumes "i + n \<le> j" "j + n' \<le> 2 ^ 32"
  shows "region (a + of_nat i) n \<inter> region (a + of_nat j) n' = {}"
proof (rule ccontr)
  assume "region (a + of_nat i) n \<inter> region (a + of_nat j) n' \<noteq> {}"
  then obtain x y where xy: "x < n" "y < n'"
      "a + of_nat i + of_nat x = a + of_nat j + (of_nat y :: u32)"
    by (auto simp: region_iff)
  then have "(of_nat (i + x) :: u32) = of_nat (j + y)"
    by simp
  moreover have "i + x < 2 ^ 32" "j + y < 2 ^ 32"
    using assms xy by simp_all
  ultimately have "i + x = j + y"
    by (rule_tac u32_of_nat_inj)
  with assms xy show False by simp
qed

lemma regions_apart:
  assumes "unat a + n \<le> unat b" "unat b + n' \<le> 2 ^ 32"
  shows "region a n \<inter> region b n' = {}"
  using region_shift_disjoint [OF assms, of 0] by simp

lemma block_in_buffer:
  "k < n \<Longrightarrow> region (a + 16 * of_nat k) 16 \<subseteq> region a (16 * n)"
  using region_shift_subset [of "16 * k" 16 "16 * n" a] by simp

lemma block_after_prefix:
  assumes "k < 65536"
  shows "region a (16 * k) \<inter> region (a + 16 * of_nat k) 16 = {}"
proof -
  from assms have "16 * k + 16 \<le> (2 :: nat) ^ 32" by simp
  from region_shift_disjoint [of 0 "16 * k" "16 * k" 16 a, OF _ this] show ?thesis
    by simp
qed

lemma word_in_block: "k + 4 \<le> 16 \<Longrightarrow> region (a + of_nat k) 4 \<subseteq> region a 16"
  by (rule region_shift_subset)

lemma words_apart:
  "i + 4 \<le> j \<Longrightarrow> j + 4 \<le> 16 \<Longrightarrow> region (a + of_nat i) 4 \<inter> region (a + of_nat j) 4 = {}"
  by (rule region_shift_disjoint) simp_all

lemma store32_frame: "x \<notin> region a 4 \<Longrightarrow> store32 m a v x = m x"
  by (simp add: region_4 store32_def)

lemma load32_eqI: "(\<And>x. x \<in> region b 4 \<Longrightarrow> m x = m' x) \<Longrightarrow> load32 m b = load32 m' b"
  by (simp add: region_4 load32_def)

lemma load32_store32_same: "load32 (store32 m a v) a = v"
proof -
  have d: "a + 1 \<noteq> a" "a + 2 \<noteq> a" "a + 3 \<noteq> a" "a + 2 \<noteq> a + 1" "a + 3 \<noteq> a + 1" "a + 3 \<noteq> a + 2"
    by simp_all
  show ?thesis
    unfolding load32_def store32_def
    apply (simp add: d)
    apply (rule bit_word_eqI)
    subgoal for n
      by (cases "n < 8"; cases "n < 16"; cases "n < 24") (auto simp: bit_simps)
    done
qed

lemma load32_store32_other:
  "region b 4 \<inter> region a 4 = {} \<Longrightarrow> load32 (store32 m a v) b = load32 m b"
  by (rule load32_eqI) (auto intro!: store32_frame)

lemma ctr_block_cong:
  assumes "\<And>x. x \<in> region p 16 \<Longrightarrow> m x = m' x"
  shows "ctr_block m p = ctr_block m' p"
proof -
  have "load32 m (p + of_nat k) = load32 m' (p + of_nat k)" if "k + 4 \<le> 16" for k
    using region_shift_subset [OF that, of p] assms by (intro load32_eqI) auto
  from this [of 0] this [of 4] this [of 8] this [of 12] show ?thesis
    by (simp add: ctr_block_def)
qed

lemma mem_block_cong:
  assumes "\<And>x. x \<in> region a 16 \<Longrightarrow> m x = m' x"
  shows "mem_block m a = mem_block m' a"
proof -
  have "load32 m (a + of_nat k) = load32 m' (a + of_nat k)" if "k + 4 \<le> 16" for k
    using region_shift_subset [OF that, of a] assms by (intro load32_eqI) auto
  from this [of 0] this [of 4] this [of 8] this [of 12] show ?thesis
    by (simp add: mem_block_def)
qed

subsection \<open>One block: the combine loop\<close>

lemma xor_mem_frame:
  assumes "x \<notin> region out 16"
  shows "xor_mem d out inp m x = m x"
proof -
  have "x \<notin> region (out + of_nat k) 4" if "k + 4 \<le> 16" for k
    using word_in_block [OF that, of out] assms by auto
  from this [of 0] this [of 4] this [of 8] this [of 12] show ?thesis
    by (cases d) (simp add: xor_mem_def Let_def store32_frame)
qed

lemma xor_mem_load:
  assumes al: "inp = out \<or> region inp 16 \<inter> region out 16 = {}"
  shows "load32 (xor_mem d out inp m) (out + 12) = REV (engine_word d 3) XOR load32 m (inp + 12)"
    and "load32 (xor_mem d out inp m) (out + 8) = REV (engine_word d 2) XOR load32 m (inp + 8)"
    and "load32 (xor_mem d out inp m) (out + 4) = REV (engine_word d 1) XOR load32 m (inp + 4)"
    and "load32 (xor_mem d out inp m) out = REV (engine_word d 0) XOR load32 m inp"
proof -
  obtain d0 d1 d2 d3 where d: "d = (d0, d1, d2, d3)" by (cases d)
  have oo: "region (out + of_nat i) 4 \<inter> region (out + of_nat j) 4 = {}"
    if "i + 4 \<le> j \<or> j + 4 \<le> i" "i + 4 \<le> 16" "j + 4 \<le> 16" for i j
    using that words_apart [of i j out] words_apart [of j i out] by auto
  have io: "region (inp + of_nat i) 4 \<inter> region (out + of_nat j) 4 = {}"
    if "i + 4 \<le> j \<or> j + 4 \<le> i" "i + 4 \<le> 16" "j + 4 \<le> 16" for i j
  proof (cases "inp = out")
    case True
    with oo [OF that] show ?thesis by simp
  next
    case False
    with al have "region inp 16 \<inter> region out 16 = {}" by simp
    with word_in_block [OF that(2), of inp] word_in_block [OF that(3), of out]
    show ?thesis by blast
  qed
  note wo = oo [of 0 4, simplified] oo [of 0 8, simplified] oo [of 0 12, simplified]
    oo [of 4 8, simplified] oo [of 4 12, simplified] oo [of 8 12, simplified]
    oo [of 4 0, simplified] oo [of 8 0, simplified] oo [of 12 0, simplified]
    oo [of 8 4, simplified] oo [of 12 4, simplified] oo [of 12 8, simplified]
  note wi = io [of 8 12, simplified] io [of 4 12, simplified] io [of 4 8, simplified]
    io [of 0 12, simplified] io [of 0 8, simplified] io [of 0 4, simplified]
  show "load32 (xor_mem d out inp m) (out + 12) = REV (engine_word d 3) XOR load32 m (inp + 12)"
    by (simp add: d xor_mem_def Let_def engine_word_def load32_store32_other wo wi
          load32_store32_same)
  show "load32 (xor_mem d out inp m) (out + 8) = REV (engine_word d 2) XOR load32 m (inp + 8)"
    by (simp add: d xor_mem_def Let_def engine_word_def load32_store32_other wo wi
          load32_store32_same)
  show "load32 (xor_mem d out inp m) (out + 4) = REV (engine_word d 1) XOR load32 m (inp + 4)"
    by (simp add: d xor_mem_def Let_def engine_word_def load32_store32_other wo wi
          load32_store32_same)
  show "load32 (xor_mem d out inp m) out = REV (engine_word d 0) XOR load32 m inp"
    by (simp add: d xor_mem_def Let_def engine_word_def load32_store32_other wo wi
          load32_store32_same)
qed

lemma xor_mem_block:
  assumes "inp = out \<or> region inp 16 \<inter> region out 16 = {}"
  shows "mem_block (xor_mem d out inp m) out = combine d (mem_block m inp)"
  by (cases d) (simp add: mem_block_def xor_mem_load [OF assms] engine_word_def)

subsection \<open>Memory along a chunk\<close>

text \<open>
  While the blocks of a chunk are processed, the counter is the start value advanced once
  per block, nothing outside the counter and the output blocks already written has
  changed, and every output block written is the combination of the engine's output for
  the counter submitted for it with the input block of the same index. The counter
  function is assumed to keep to its contract, the counter to lie apart from both buffers,
  and the output buffer to be the input buffer or apart from it.
\<close>

lemma run_memory:
  assumes st: "blockIndex s1 = 0" "\<not> aesFinished s1" "AES_RUNNING (AES s1)"
      "ctrFuncG s1 = Some f"
    and data: "AES_DATA (AES s1) = ctr_block (mem s1) (ctrG s1)"
    and strat: "counter_strategy f (ctrG s1)"
    and sep: "region (ctrG s1) 16 \<inter>
        region (outputDataG s1) (16 * unat (numberOfBlocks s1)) = {}"
  shows "k \<le> unat (numberOfBlocks s1) \<Longrightarrow> events dev E k s1 = Some sk \<Longrightarrow>
     (\<forall>a \<in> region (ctrG s1) 16. mem sk a = ((f (ctrG s1)) ^^ k) (mem s1) a) \<and>
     (\<forall>a. a \<notin> region (ctrG s1) 16 \<longrightarrow> a \<notin> region (outputDataG s1) (16 * k) \<longrightarrow>
          mem sk a = mem s1 a) \<and>
     AES_DATA (AES sk) = ctr_block (mem sk) (ctrG s1)"
proof (induction k arbitrary: sk)
  case 0
  then have "sk = s1" by simp
  then show ?case by (simp add: data region_def)
next
  case (Suc k)
  let ?p = "ctrG s1" and ?out = "outputDataG s1" and ?N = "unat (numberOfBlocks s1)"
  from Suc.prems have kN: "k < ?N" by simp
  then have "k \<le> ?N" by simp
  from run_control [OF st this, of dev E]
  obtain s where s: "events dev E k s1 = Some s" "unat (blockIndex s) = k"
      "numberOfBlocks s = numberOfBlocks s1" "AES_RUNNING (AES s)" "ctrFuncG s = Some f"
      "ctrG s = ?p" "outputDataG s = ?out + 16 * of_nat k"
    by blast
  from Suc.IH [OF \<open>k \<le> ?N\<close> s(1)]
  have ih: "\<And>a. a \<in> region ?p 16 \<Longrightarrow> mem s a = ((f ?p) ^^ k) (mem s1) a"
      "\<And>a. a \<notin> region ?p 16 \<Longrightarrow> a \<notin> region ?out (16 * k) \<Longrightarrow> mem s a = mem s1 a"
    by auto
  from kN s(2,3) have less: "blockIndex s < numberOfBlocks s"
    by (simp add: word_less_nat_alt)
  define D where "D = E (AES_KEY (AES s)) (AES_DATA (AES s))"
  from Suc.prems(2) s(1) have "sk = the (completion_event dev E s)"
    by simp
  then have m: "mem sk = xor_mem D (outputDataG s) (inputDataG s) (f ?p (mem s))"
    and dat: "AES_DATA (AES sk) = ctr_block (mem sk) ?p"
    by (simp_all add: completion_event_block [OF s(4) less s(5)] D_def s(6))
  have blk: "region (?out + 16 * of_nat k) 16 \<subseteq> region ?out (16 * ?N)"
    using kN by (rule block_in_buffer)
  have blk': "region (?out + 16 * of_nat k) 16 \<subseteq> region ?out (16 * Suc k)"
    by (rule block_in_buffer) simp
  have pre: "region ?out (16 * k) \<subseteq> region ?out (16 * Suc k)"
    by (rule region_mono) simp
  from strat have frame: "\<And>m a. a \<notin> region ?p 16 \<Longrightarrow> f ?p m a = m a"
    and local: "\<And>m m' a. (\<forall>a \<in> region ?p 16. m a = m' a) \<Longrightarrow> a \<in> region ?p 16 \<Longrightarrow>
        f ?p m a = f ?p m' a"
    unfolding counter_strategy_def by blast+
  have A: "mem sk a = ((f ?p) ^^ Suc k) (mem s1) a" if a: "a \<in> region ?p 16" for a
  proof -
    from a sep blk have "a \<notin> region (outputDataG s) 16"
      unfolding s(7) by blast
    then have "mem sk a = f ?p (mem s) a"
      by (simp add: m xor_mem_frame)
    also have "\<dots> = f ?p (((f ?p) ^^ k) (mem s1)) a"
      using ih(1) a by (intro local) simp_all
    finally show ?thesis by simp
  qed
  have B: "mem sk a = mem s1 a"
    if a: "a \<notin> region ?p 16" "a \<notin> region ?out (16 * Suc k)" for a
  proof -
    from a(2) blk' have "a \<notin> region (outputDataG s) 16"
      unfolding s(7) by blast
    then have "mem sk a = f ?p (mem s) a"
      by (simp add: m xor_mem_frame)
    also have "\<dots> = mem s a"
      using a(1) by (rule frame)
    also have "\<dots> = mem s1 a"
      using a pre by (intro ih(2)) auto
    finally show ?thesis .
  qed
  from A B dat show ?case by blast
qed

lemma run_output:
  assumes st: "blockIndex s1 = 0" "\<not> aesFinished s1" "AES_RUNNING (AES s1)"
      "ctrFuncG s1 = Some f"
    and data: "AES_DATA (AES s1) = ctr_block (mem s1) (ctrG s1)"
    and strat: "counter_strategy f (ctrG s1)"
    and sep: "region (ctrG s1) 16 \<inter>
        region (outputDataG s1) (16 * unat (numberOfBlocks s1)) = {}"
    and sep_in: "region (ctrG s1) 16 \<inter>
        region (inputDataG s1) (16 * unat (numberOfBlocks s1)) = {}"
    and al: "inputDataG s1 = outputDataG s1 \<or>
        region (inputDataG s1) (16 * unat (numberOfBlocks s1)) \<inter>
        region (outputDataG s1) (16 * unat (numberOfBlocks s1)) = {}"
  shows "k \<le> unat (numberOfBlocks s1) \<Longrightarrow> events dev E k s1 = Some sk \<Longrightarrow> i < k \<Longrightarrow>
     mem_block (mem sk) (outputDataG s1 + 16 * of_nat i) =
       combine (keystream E (AES_KEY (AES s1)) f (ctrG s1) (mem s1) i)
         (mem_block (mem s1) (inputDataG s1 + 16 * of_nat i))"
proof (induction k arbitrary: sk)
  case 0
  then show ?case by simp
next
  case (Suc k)
  let ?p = "ctrG s1" and ?out = "outputDataG s1" and ?inp = "inputDataG s1"
  let ?N = "unat (numberOfBlocks s1)"
  from Suc.prems have kN: "k < ?N" by simp
  then have kN': "k \<le> ?N" by simp
  have k16: "k < 65536" using kN u16_bound [of "numberOfBlocks s1"] by simp
  from run_control [OF st kN', of dev E]
  obtain s where s: "events dev E k s1 = Some s" "unat (blockIndex s) = k"
      "numberOfBlocks s = numberOfBlocks s1" "AES_RUNNING (AES s)" "ctrFuncG s = Some f"
      "ctrG s = ?p" "outputDataG s = ?out + 16 * of_nat k"
      "inputDataG s = ?inp + 16 * of_nat k" "AES_KEY (AES s) = AES_KEY (AES s1)"
    by blast
  from run_memory [OF st data strat sep kN' s(1)]
  have rm: "\<And>a. a \<in> region ?p 16 \<Longrightarrow> mem s a = ((f ?p) ^^ k) (mem s1) a"
      "\<And>a. a \<notin> region ?p 16 \<Longrightarrow> a \<notin> region ?out (16 * k) \<Longrightarrow> mem s a = mem s1 a"
      "AES_DATA (AES s) = ctr_block (mem s) ?p"
    by auto
  from kN s(2,3) have less: "blockIndex s < numberOfBlocks s"
    by (simp add: word_less_nat_alt)
  from strat have frame: "\<And>m a. a \<notin> region ?p 16 \<Longrightarrow> f ?p m a = m a"
    unfolding counter_strategy_def by blast
  have D: "E (AES_KEY (AES s)) (AES_DATA (AES s)) = keystream E (AES_KEY (AES s1)) f ?p (mem s1) k"
    unfolding keystream_def s(9) rm(3) using rm(1) by (simp cong: ctr_block_cong)
  from Suc.prems(2) s(1) have "sk = the (completion_event dev E s)"
    by simp
  then have m: "mem sk = xor_mem (keystream E (AES_KEY (AES s1)) f ?p (mem s1) k)
      (?out + 16 * of_nat k) (?inp + 16 * of_nat k) (f ?p (mem s))"
    by (simp add: completion_event_block [OF s(4) less s(5)] D s(6,7,8))
  have out_k: "region (?out + 16 * of_nat k) 16 \<subseteq> region ?out (16 * ?N)"
    and in_k: "region (?inp + 16 * of_nat k) 16 \<subseteq> region ?inp (16 * ?N)"
    using kN by (rule block_in_buffer)+
  show ?case
  proof (cases "i = k")
    case True
    have al_k: "?inp + 16 * of_nat k = ?out + 16 * of_nat k \<or>
        region (?inp + 16 * of_nat k) 16 \<inter> region (?out + 16 * of_nat k) 16 = {}"
      using al out_k in_k by auto
    have "mem_block (f ?p (mem s)) (?inp + 16 * of_nat k) = mem_block (mem s1) (?inp + 16 * of_nat k)"
    proof (rule mem_block_cong)
      fix x assume x: "x \<in> region (?inp + 16 * of_nat k) 16"
      with in_k sep_in have np: "x \<notin> region ?p 16" by blast
      have no: "x \<notin> region ?out (16 * k)"
      proof (cases "?inp = ?out")
        case True
        with x block_after_prefix [OF k16, of ?out] show ?thesis by auto
      next
        case False
        with al have "region ?inp (16 * ?N) \<inter> region ?out (16 * ?N) = {}" by simp
        moreover have "region ?out (16 * k) \<subseteq> region ?out (16 * ?N)"
          using kN by (intro region_mono) simp
        ultimately show ?thesis using x in_k by blast
      qed
      from np no show "f ?p (mem s) x = mem s1 x"
        by (simp add: frame rm(2))
    qed
    with True show ?thesis
      by (simp add: m xor_mem_block [OF al_k])
  next
    case False
    with Suc.prems(3) have ik: "i < k" by simp
    have "mem_block (mem sk) (?out + 16 * of_nat i) = mem_block (mem s) (?out + 16 * of_nat i)"
    proof (rule mem_block_cong)
      fix x assume x: "x \<in> region (?out + 16 * of_nat i) 16"
      with block_in_buffer [OF ik, of ?out] have xk: "x \<in> region ?out (16 * k)" by blast
      with block_after_prefix [OF k16, of ?out]
      have "x \<notin> region (?out + 16 * of_nat k) 16" by blast
      moreover from xk have "x \<in> region ?out (16 * ?N)"
        using region_mono [of "16 * k" "16 * ?N" ?out] kN by auto
      with sep have "x \<notin> region ?p 16" by blast
      ultimately show "mem sk x = mem s x"
        by (simp add: m xor_mem_frame frame)
    qed
    with Suc.IH [OF kN' s(1) ik] show ?thesis by simp
  qed
qed

lemma chunk_blocks_combined:
  assumes s1: "s1 = AesCtr128 dev key inp out n ctr fo init s"
    and f: "ctrFuncG s1 = Some f"
    and strat: "counter_strategy f (ctrG s1)"
    and sep: "region (ctrG s1) 16 \<inter> region out (16 * unat (numberOfBlocks s1)) = {}"
    and sep_in: "region (ctrG s1) 16 \<inter> region inp (16 * unat (numberOfBlocks s1)) = {}"
    and al: "inp = out \<or>
        region inp (16 * unat (numberOfBlocks s1)) \<inter>
        region out (16 * unat (numberOfBlocks s1)) = {}"
    and i: "i < unat (numberOfBlocks s1)" "i < k"
    and ev: "events dev E k s1 = Some s'"
  shows "mem_block (mem s') (out + 16 * of_nat i) =
           combine (keystream E (AES_KEY (AES s1)) f (ctrG s1) (mem s) i)
             (mem_block (mem s) (inp + 16 * of_nat i))"
proof -
  let ?N = "unat (numberOfBlocks s1)"
  have st: "blockIndex s1 = 0" "\<not> aesFinished s1" "AES_RUNNING (AES s1)"
    and io: "inputDataG s1 = inp" "outputDataG s1 = out" "mem s1 = mem s"
    and data: "AES_DATA (AES s1) = ctr_block (mem s1) (ctrG s1)"
    by (simp_all add: s1 AesCtr128_start)
  note ro = run_output [OF st f data strat, unfolded io, OF sep sep_in al]
  show ?thesis
  proof (cases "k \<le> ?N")
    case True
    from ro [OF True ev i(2)] show ?thesis .
  next
    case False
    have "\<not> Suc ?N < k"
      using run_stops [OF st f, of k dev E] ev by auto
    with False have k: "k = Suc ?N" by simp
    from run_finish [OF st f, of dev E]
    obtain sn where sn: "events dev E ?N s1 = Some sn" "mem s' = mem sn"
      using ev unfolding k by auto
    from ro [OF order_refl sn(1) i(1)] show ?thesis
      by (simp add: sn(2))
  qed
qed

lemma chunk_counter_advanced:
  assumes s1: "s1 = AesCtr128 dev key inp out n ctr fo init s"
    and f: "ctrFuncG s1 = Some f"
    and strat: "counter_strategy f (ctrG s1)"
    and sep: "region (ctrG s1) 16 \<inter> region out (16 * unat (numberOfBlocks s1)) = {}"
  shows "\<exists>s'. events dev E (Suc (unat (numberOfBlocks s1))) s1 = Some s' \<and> AesFinished s' \<and>
           ctrFuncCalls s' = ctrFuncCalls s + unat (numberOfBlocks s1) \<and>
           (\<forall>a \<in> region (ctrG s1) 16.
              mem s' a = ((f (ctrG s1)) ^^ unat (numberOfBlocks s1)) (mem s) a) \<and>
           (\<forall>a. a \<notin> region (ctrG s1) 16 \<longrightarrow>
              a \<notin> region out (16 * unat (numberOfBlocks s1)) \<longrightarrow> mem s' a = mem s a)"
proof -
  let ?N = "unat (numberOfBlocks s1)"
  have st: "blockIndex s1 = 0" "\<not> aesFinished s1" "AES_RUNNING (AES s1)"
    and io: "outputDataG s1 = out" "mem s1 = mem s" "ctrFuncCalls s1 = ctrFuncCalls s"
    and data: "AES_DATA (AES s1) = ctr_block (mem s1) (ctrG s1)"
    by (simp_all add: s1 AesCtr128_start)
  from run_finish [OF st f, of dev E]
  obtain sn s' where sn: "events dev E ?N s1 = Some sn"
      and s': "events dev E (Suc ?N) s1 = Some s'" "aesFinished s'" "mem s' = mem sn"
        "ctrFuncCalls s' = ctrFuncCalls s1 + ?N"
    by blast
  from run_memory [OF st f data strat, unfolded io, OF sep order_refl sn]
  have m: "\<forall>a \<in> region (ctrG s1) 16. mem s' a = ((f (ctrG s1)) ^^ ?N) (mem s) a"
      "\<forall>a. a \<notin> region (ctrG s1) 16 \<longrightarrow> a \<notin> region out (16 * ?N) \<longrightarrow> mem s' a = mem s a"
    unfolding s'(3) by blast+
  have "AesFinished s'" "ctrFuncCalls s' = ctrFuncCalls s + ?N"
    by (simp_all add: AesFinished_def s' io)
  with s'(1) m show ?thesis
    by blast
qed

lemma run_finish_cursors:
  assumes "blockIndex s1 = 0" "\<not> aesFinished s1" "AES_RUNNING (AES s1)" "ctrFuncG s1 = Some f"
  shows "\<exists>s'. events dev E (Suc (unat (numberOfBlocks s1))) s1 = Some s' \<and>
      inputDataG s' = inputDataG s1 + 16 * of_nat (unat (numberOfBlocks s1)) \<and>
      outputDataG s' = outputDataG s1 + 16 * of_nat (unat (numberOfBlocks s1))"
proof -
  obtain sn where sn: "events dev E (unat (numberOfBlocks s1)) s1 = Some sn"
      "unat (blockIndex sn) = unat (numberOfBlocks s1)"
      "numberOfBlocks sn = numberOfBlocks s1" "AES_RUNNING (AES sn)"
      "inputDataG sn = inputDataG s1 + 16 * of_nat (unat (numberOfBlocks s1))"
      "outputDataG sn = outputDataG s1 + 16 * of_nat (unat (numberOfBlocks s1))"
    using run_control [OF assms, of "unat (numberOfBlocks s1)" dev E] by auto
  from sn(2) have eq: "blockIndex sn = numberOfBlocks s1"
    by (simp add: word_unat_eq_iff)
  with sn(3) have nl: "\<not> blockIndex sn < numberOfBlocks sn" by simp
  show ?thesis
    by (simp add: sn completion_event_last [OF sn(4) nl])
qed

lemma run_mem_exact:
  assumes st: "blockIndex s1 = 0" "\<not> aesFinished s1" "AES_RUNNING (AES s1)"
      "ctrFuncG s1 = Some f"
    and data: "AES_DATA (AES s1) = ctr_block (mem s1) (ctrG s1)"
  shows "k \<le> unat (numberOfBlocks s1) \<Longrightarrow> events dev E k s1 = Some sk \<Longrightarrow>
     mem sk = blocks_mem E (AES_KEY (AES s1)) f (ctrG s1) (inputDataG s1) (outputDataG s1)
                (mem s1) k \<and>
     AES_DATA (AES sk) = ctr_block (mem sk) (ctrG s1)"
proof (induction k arbitrary: sk)
  case 0
  then have "sk = s1" by simp
  then show ?case by (simp add: data)
next
  case (Suc k)
  let ?N = "unat (numberOfBlocks s1)"
  from Suc.prems have kN: "k < ?N" by simp
  then have kN': "k \<le> ?N" by simp
  from run_control [OF st kN', of dev E]
  obtain s where s: "events dev E k s1 = Some s" "unat (blockIndex s) = k"
      "numberOfBlocks s = numberOfBlocks s1" "AES_RUNNING (AES s)" "ctrFuncG s = Some f"
      "ctrG s = ctrG s1" "outputDataG s = outputDataG s1 + 16 * of_nat k"
      "inputDataG s = inputDataG s1 + 16 * of_nat k" "AES_KEY (AES s) = AES_KEY (AES s1)"
    by blast
  from Suc.IH [OF kN' s(1)]
  have ih: "mem s = blocks_mem E (AES_KEY (AES s1)) f (ctrG s1) (inputDataG s1)
      (outputDataG s1) (mem s1) k" "AES_DATA (AES s) = ctr_block (mem s) (ctrG s1)"
    by simp_all
  from kN s(2,3) have less: "blockIndex s < numberOfBlocks s"
    by (simp add: word_less_nat_alt)
  from Suc.prems(2) s(1) have "sk = the (completion_event dev E s)"
    by simp
  then show ?case
    by (simp add: completion_event_block [OF s(4) less s(5)] s(6-9) ih(2) ih(1) [symmetric])
qed

subsection \<open>The example inputs\<close>

lemma ctr_inc8_strategy: "counter_strategy ctr_inc8 p"
proof -
  have "p + 15 \<in> region p 16"
    unfolding region_iff by (rule exI [of _ 15]) simp
  then show ?thesis
    by (auto simp: counter_strategy_def ctr_inc8_def)
qed

lemma mem_block_two_blocks:
  "mem_block two_blocks 0x80000000 = (0x5A, 0, 0, 0)"
  "mem_block two_blocks 0x80000010 = (0xA5, 0, 0, 0)"
  "mem_block two_blocks 0x84000010 = (0, 0, 0, 0)"
  by (simp_all add: mem_block_def load32_def two_blocks_def)

lemma ctr_block_two_blocks:
  "ctr_block two_blocks 0 = (0, 0, 0, 0)"
  "ctr_block two_blocks 0x20000000 = (0, 0, 0, 0)"
  "ctr_block (ctr_inc8 0x20000000 two_blocks) 0x20000000 = (1, 0, 0, 0)"
  by (simp_all add: ctr_block_def ctr_inc8_def load32_def REV_def two_blocks_def)

subsection \<open>A chunk within its stored block count\<close>

text \<open>
  With \<open>N = blockNumber mod 2^16\<close> the block count the call stores: under the contract of
  the counter function and with counter and buffers apart, every output block of index
  below \<open>N\<close> is the combination for its index, from the event that writes it to the end of
  the chunk; and the counter function is called exactly \<open>N\<close> times, the counter ending as
  the start value advanced \<open>N\<close> times.
\<close>

lemma ctr_combine_correct:
  assumes s1: "s1 = AesCtr128 dev key inp out n ctr fo init s"
    and f: "ctrFuncG s1 = Some f"
    and strat: "counter_strategy f (ctrG s1)"
    and sep: "region (ctrG s1) 16 \<inter> region out (16 * (unat n mod 65536)) = {}"
    and sep_in: "region (ctrG s1) 16 \<inter> region inp (16 * (unat n mod 65536)) = {}"
    and al: "inp = out \<or>
        region inp (16 * (unat n mod 65536)) \<inter> region out (16 * (unat n mod 65536)) = {}"
    and i: "i < unat n mod 65536"
  shows "\<exists>si sf. events dev E (i + 1) s1 = Some si \<and>
           mem_block (mem si) (out + 16 * of_nat i) =
             combine (keystream E (AES_KEY (AES s1)) f (ctrG s1) (mem s) i)
               (mem_block (mem s) (inp + 16 * of_nat i)) \<and>
           events dev E (unat n mod 65536 + 1) s1 = Some sf \<and> AesFinished sf \<and>
           mem_block (mem sf) (out + 16 * of_nat i) =
             combine (keystream E (AES_KEY (AES s1)) f (ctrG s1) (mem s) i)
               (mem_block (mem s) (inp + 16 * of_nat i))"
proof -
  have st: "blockIndex s1 = 0" "\<not> aesFinished s1" "AES_RUNNING (AES s1)"
    and nb: "numberOfBlocks s1 = ucast n"
    by (simp_all add: s1 AesCtr128_start)
  have N: "unat n mod 65536 = unat (numberOfBlocks s1)"
    by (simp add: nb unat_ucast_u16)
  note cb = chunk_blocks_combined [OF s1 f strat sep [unfolded N] sep_in [unfolded N]
      al [unfolded N] i [unfolded N]]
  from i have "i + 1 \<le> unat (numberOfBlocks s1)"
    unfolding N by simp
  from run_control [OF st f this, of dev E]
  obtain si where si: "events dev E (i + 1) s1 = Some si" by blast
  from run_finish [OF st f, of dev E]
  obtain sf where sf: "events dev E (Suc (unat (numberOfBlocks s1))) s1 = Some sf"
      "aesFinished sf"
    by blast
  have "i < i + 1" by simp
  note b1 = cb [OF this si]
  from i have "i < Suc (unat (numberOfBlocks s1))"
    unfolding N by simp
  note b2 = cb [OF this sf(1)]
  have "events dev E (unat n mod 65536 + 1) s1 = Some sf" "AesFinished sf"
    using sf by (simp_all add: N AesFinished_def)
  with si b1 b2 show ?thesis
    by blast
qed

lemma ctr_combine_correct_witness:
  "\<exists>si sf. events efm32gg (\<lambda>k d. d) 2
        (AesCtr128 efm32gg 0 0x80000000 0x84000000 2 0x20000000 (Some ctr_inc8) True
          (startup two_blocks engine_reset (\<lambda>i. 0))) = Some si \<and>
      mem_block (mem si) 0x84000010 = (0xA5, 0, 0, 0x01000000) \<and>
      events efm32gg (\<lambda>k d. d) 3
        (AesCtr128 efm32gg 0 0x80000000 0x84000000 2 0x20000000 (Some ctr_inc8) True
          (startup two_blocks engine_reset (\<lambda>i. 0))) = Some sf \<and>
      AesFinished sf \<and>
      mem_block (mem sf) 0x84000010 = (0xA5, 0, 0, 0x01000000)"
proof -
  define s0 where "s0 = startup two_blocks engine_reset (\<lambda>i. 0)"
  define s1 where "s1 = AesCtr128 efm32gg 0 0x80000000 0x84000000 2 0x20000000
      (Some ctr_inc8) True s0"
  let ?E = "\<lambda>(k :: block) (d :: block). d"
  have f: "ctrFuncG s1 = Some ctr_inc8"
    and io: "ctrG s1 = 0x20000000" "mem s0 = two_blocks"
    and key: "AES_KEY (AES s1) = (0, 0, 0, 0)"
    by (simp_all add: s1_def s0_def AesCtr128_init_eq startup_def ctr_block_two_blocks)
  have sep: "region (ctrG s1) 16 \<inter> region 0x84000000 (16 * (unat (2 :: u32) mod 65536)) = {}"
    unfolding io by (rule regions_apart) simp_all
  have sep_in: "region (ctrG s1) 16 \<inter> region 0x80000000 (16 * (unat (2 :: u32) mod 65536)) = {}"
    unfolding io by (rule regions_apart) simp_all
  have al: "(0x80000000 :: u32) = 0x84000000 \<or>
      region 0x80000000 (16 * (unat (2 :: u32) mod 65536)) \<inter>
      region (0x84000000 :: u32) (16 * (unat (2 :: u32) mod 65536)) = {}"
    by (rule disjI2, rule regions_apart) simp_all
  have i: "1 < unat (2 :: u32) mod 65536" by simp
  have e1: "combine (keystream ?E (0, 0, 0, 0) ctr_inc8 0x20000000 two_blocks 1)
        (mem_block two_blocks 0x80000010) = (0xA5, 0, 0, 0x01000000)"
    by (simp add: keystream_def ctr_block_two_blocks mem_block_two_blocks REV_def)
  have n1: "(1 :: nat) + 1 = 2" "unat (2 :: u32) mod 65536 + 1 = 3"
      "(0x84000000 :: u32) + 16 * of_nat 1 = 0x84000010"
      "(0x80000000 :: u32) + 16 * of_nat 1 = 0x80000010"
    by simp_all
  note w = ctr_combine_correct [OF s1_def f ctr_inc8_strategy sep sep_in al i, where E = ?E,
      unfolded n1 io key e1]
  show ?thesis
    unfolding s1_def [symmetric] s0_def [symmetric] by (rule w)
qed

lemma counter_advance_count:
  assumes s1: "s1 = AesCtr128 dev key inp out n ctr fo init s"
    and f: "ctrFuncG s1 = Some f"
    and strat: "counter_strategy f (ctrG s1)"
    and sep: "region (ctrG s1) 16 \<inter> region out (16 * (unat n mod 65536)) = {}"
  shows "\<exists>s'. events dev E (unat n mod 65536 + 1) s1 = Some s' \<and> AesFinished s' \<and>
           ctrFuncCalls s' = ctrFuncCalls s + unat n mod 65536 \<and>
           (\<forall>a \<in> region (ctrG s1) 16.
              mem s' a = ((f (ctrG s1)) ^^ (unat n mod 65536)) (mem s) a) \<and>
           events dev E (unat n mod 65536 + 2) s1 = None"
proof -
  have st: "blockIndex s1 = 0" "\<not> aesFinished s1" "AES_RUNNING (AES s1)"
    and nb: "numberOfBlocks s1 = ucast n"
    by (simp_all add: s1 AesCtr128_start)
  have N: "unat n mod 65536 = unat (numberOfBlocks s1)"
    by (simp add: nb unat_ucast_u16)
  from chunk_counter_advanced [OF s1 f strat sep [unfolded N], where E = E]
  obtain s' where s': "events dev E (Suc (unat (numberOfBlocks s1))) s1 = Some s'"
      "AesFinished s'" "ctrFuncCalls s' = ctrFuncCalls s + unat (numberOfBlocks s1)"
      "\<forall>a \<in> region (ctrG s1) 16.
          mem s' a = ((f (ctrG s1)) ^^ unat (numberOfBlocks s1)) (mem s) a"
    by blast
  have stop: "events dev E (unat (numberOfBlocks s1) + 2) s1 = None"
    by (rule run_stops [OF st f]) simp
  have "events dev E (unat n mod 65536 + 1) s1 = Some s'"
    using s'(1) by (simp add: N)
  with s'(2-4) stop show ?thesis
    unfolding N by blast
qed

lemma counter_advance_count_witness:
  "\<exists>s'. events efm32gg (\<lambda>k d. d) 3
        (AesCtr128 efm32gg 0 0x80000000 0x84000000 2 0x20000000 (Some ctr_inc8) True
          (startup two_blocks engine_reset (\<lambda>i. 0))) = Some s' \<and>
      AesFinished s' \<and> ctrFuncCalls s' = 2 \<and> mem s' 0x2000000F = 2 \<and>
      events efm32gg (\<lambda>k d. d) 4
        (AesCtr128 efm32gg 0 0x80000000 0x84000000 2 0x20000000 (Some ctr_inc8) True
          (startup two_blocks engine_reset (\<lambda>i. 0))) = None"
proof -
  define s0 where "s0 = startup two_blocks engine_reset (\<lambda>i. 0)"
  define s1 where "s1 = AesCtr128 efm32gg 0 0x80000000 0x84000000 2 0x20000000
      (Some ctr_inc8) True s0"
  let ?E = "\<lambda>(k :: block) (d :: block). d"
  have f: "ctrFuncG s1 = Some ctr_inc8"
    and io: "ctrG s1 = 0x20000000" "mem s0 = two_blocks" "ctrFuncCalls s0 = 0"
    by (simp_all add: s1_def s0_def AesCtr128_init_eq startup_def)
  have sep: "region (ctrG s1) 16 \<inter> region 0x84000000 (16 * (unat (2 :: u32) mod 65536)) = {}"
    unfolding io by (rule regions_apart) simp_all
  have last: "(0x2000000F :: u32) \<in> region 0x20000000 16"
    unfolding region_iff by (rule exI [of _ 15]) simp
  have "((ctr_inc8 0x20000000) ^^ 2) two_blocks =
      ctr_inc8 0x20000000 (ctr_inc8 0x20000000 two_blocks)"
    by (simp only: numeral_2_eq_2 funpow.simps o_apply id_apply)
  then have adv: "((ctr_inc8 0x20000000) ^^ 2) two_blocks 0x2000000F = 2"
    by (simp add: ctr_inc8_def two_blocks_def)
  have n1: "unat (2 :: u32) mod 65536 = 2" "(2 :: nat) + 1 = 3" "(2 :: nat) + 2 = 4"
      "(0 :: nat) + 2 = 2"
    by simp_all
  from counter_advance_count [OF s1_def f ctr_inc8_strategy sep, where E = ?E,
      unfolded n1 io]
  obtain s' where s': "events efm32gg ?E 3 s1 = Some s'" "AesFinished s'"
      "ctrFuncCalls s' = 2"
      "\<forall>a \<in> region 0x20000000 16. mem s' a = ((ctr_inc8 0x20000000) ^^ 2) two_blocks a"
      "events efm32gg ?E 4 s1 = None"
    by blast
  from s'(4) last adv have "mem s' 0x2000000F = 2"
    by auto
  with s' show ?thesis
    unfolding s1_def [symmetric] s0_def [symmetric] by blast
qed

section \<open>The claims\<close>

subsection \<open>C1: the combine step\<close>

text \<open>
  C1. The claim: for every chunk and every block index below its block count, the output
  block of that index is the engine's output for the counter submitted for that block,
  each word byte reversed, XORed word by word with the input block of that index. The
  code departs from it where \<open>blockNumber\<close> does not fit the 16-bit static
  \<^verbatim>\<open>numberOfBlocks\<close>. A chunk started with \<open>blockNumber = 65537\<close>, on separate buffers
  and with a cipher that returns its input, stores the block count 1: the second
  completion event finishes the chunk and no further event can occur. Output block 0 then
  is the combination for block 0, \<open>(0x5A, 0, 0, 0)\<close>, but output block 1 is as it was
  before the call, all zero, while the combination of the engine's output for the counter
  submitted for block 1 with input block 1 is \<open>(0xA5, 0, 0, 0x01000000)\<close>.
\<close>

theorem combine_truncated_chunk:
  "\<exists>s'. events efm32gg (\<lambda>k d. d) 2
        (AesCtr128 efm32gg 0 0x80000000 0x84000000 65537 0x20000000 (Some ctr_inc8) True
          (startup two_blocks engine_reset (\<lambda>i. 0))) = Some s' \<and>
      AesFinished s' \<and>
      completion_event efm32gg (\<lambda>k d. d) s' = None \<and>
      mem_block (mem s') 0x84000000 = (0x5A, 0, 0, 0) \<and>
      combine (keystream (\<lambda>k d. d) (0, 0, 0, 0) ctr_inc8 0x20000000 two_blocks 0)
        (mem_block two_blocks 0x80000000) = (0x5A, 0, 0, 0) \<and>
      mem_block (mem s') 0x84000010 = (0, 0, 0, 0) \<and>
      combine (keystream (\<lambda>k d. d) (0, 0, 0, 0) ctr_inc8 0x20000000 two_blocks 1)
        (mem_block two_blocks 0x80000010) = (0xA5, 0, 0, 0x01000000) \<and>
      mem_block (mem s') 0x84000010 \<noteq>
        combine (keystream (\<lambda>k d. d) (0, 0, 0, 0) ctr_inc8 0x20000000 two_blocks 1)
          (mem_block two_blocks 0x80000010)"
proof -
  define s0 where "s0 = startup two_blocks engine_reset (\<lambda>i. 0)"
  define s1 where "s1 = AesCtr128 efm32gg 0 0x80000000 0x84000000 65537 0x20000000
      (Some ctr_inc8) True s0"
  let ?E = "\<lambda>(k :: block) (d :: block). d"
  have st: "blockIndex s1 = 0" "\<not> aesFinished s1" "AES_RUNNING (AES s1)"
      "ctrFuncG s1 = Some ctr_inc8"
    and nb: "numberOfBlocks s1 = 1"
    and io: "ctrG s1 = 0x20000000" "outputDataG s1 = 0x84000000" "mem s1 = two_blocks"
      "mem s0 = two_blocks"
    and key: "AES_KEY (AES s1) = (0, 0, 0, 0)"
    and data: "AES_DATA (AES s1) = ctr_block (mem s1) (ctrG s1)"
    by (simp_all add: s1_def s0_def AesCtr128_init_eq startup_def ctr_block_two_blocks)
  have N: "unat (numberOfBlocks s1) = 1" by (simp add: nb)
  have sep: "region (ctrG s1) 16 \<inter> region 0x84000000 (16 * unat (numberOfBlocks s1)) = {}"
    unfolding io N by (rule regions_apart) simp_all
  have sep_in: "region (ctrG s1) 16 \<inter> region 0x80000000 (16 * unat (numberOfBlocks s1)) = {}"
    unfolding io N by (rule regions_apart) simp_all
  have al: "(0x80000000 :: u32) = 0x84000000 \<or>
      region 0x80000000 (16 * unat (numberOfBlocks s1)) \<inter>
      region (0x84000000 :: u32) (16 * unat (numberOfBlocks s1)) = {}"
    unfolding N by (rule disjI2, rule regions_apart) simp_all
  from run_finish [OF st, of efm32gg ?E, unfolded N]
  obtain sn s' where sn: "events efm32gg ?E 1 s1 = Some sn"
      and s': "events efm32gg ?E (Suc 1) s1 = Some s'" "aesFinished s'"
        "\<not> AES_RUNNING (AES s')" "mem s' = mem sn"
    by blast
  have two: "Suc 1 = 2" by simp
  have ev: "events efm32gg ?E 2 s1 = Some s'"
    using s'(1) unfolding two .
  have one: "(1 :: nat) \<le> unat (numberOfBlocks s1)" by (simp add: N)
  have i0: "0 < unat (numberOfBlocks s1)" "(0 :: nat) < 2" by (simp_all add: N)
  from chunk_blocks_combined [OF s1_def st(4) ctr_inc8_strategy sep sep_in al i0 ev]
  have b0: "mem_block (mem s') 0x84000000 =
      combine (keystream ?E (0, 0, 0, 0) ctr_inc8 0x20000000 two_blocks 0)
        (mem_block two_blocks 0x80000000)"
    by (simp add: N io key)
  have e0: "combine (keystream ?E (0, 0, 0, 0) ctr_inc8 0x20000000 two_blocks 0)
        (mem_block two_blocks 0x80000000) = (0x5A, 0, 0, 0)"
    by (simp add: keystream_def ctr_block_two_blocks mem_block_two_blocks REV_def)
  from run_memory [OF st data ctr_inc8_strategy sep [folded io(2)] one sn, unfolded io]
  have keep: "\<And>a. a \<notin> region 0x20000000 16 \<Longrightarrow> a \<notin> region 0x84000000 (16 * 1) \<Longrightarrow>
      mem sn a = two_blocks a"
    by blast
  have "mem_block (mem s') (0x84000000 + 16 * of_nat 1) = mem_block two_blocks (0x84000000 + 16 * of_nat 1)"
  proof (rule mem_block_cong)
    fix x :: u32 assume x: "x \<in> region (0x84000000 + 16 * of_nat 1) 16"
    with block_after_prefix [of 1 "0x84000000"] have "x \<notin> region 0x84000000 (16 * 1)"
      by auto
    moreover have "region (0x84000000 + 16 * of_nat 1) 16 \<inter> region (0x20000000 :: u32) 16 = {}"
      by (subst Int_commute, rule regions_apart) simp_all
    with x have "x \<notin> region 0x20000000 16" by blast
    ultimately show "mem s' x = two_blocks x"
      unfolding s'(4) by (intro keep)
  qed
  then have b1: "mem_block (mem s') 0x84000010 = (0, 0, 0, 0)"
    by (simp add: mem_block_two_blocks)
  have e1: "combine (keystream ?E (0, 0, 0, 0) ctr_inc8 0x20000000 two_blocks 1)
        (mem_block two_blocks 0x80000010) = (0xA5, 0, 0, 0x01000000)"
    by (simp add: keystream_def ctr_block_two_blocks mem_block_two_blocks REV_def)
  have "AesFinished s'" using s'(2) by (simp add: AesFinished_def)
  moreover have "completion_event efm32gg ?E s' = None"
    using s'(3) by (rule completion_event_idle)
  ultimately show ?thesis
    unfolding s1_def [symmetric] s0_def [symmetric]
    using ev b0 e0 b1 e1 by (intro exI [of _ s']) simp
qed

subsection \<open>C2: the number of completion events\<close>

text \<open>
  C2, as amended. For a block count below \<open>2^16\<close> and a non-null counter function: after
  exactly \<open>blockNumber\<close> completion events \<open>blockIndex\<close> is \<open>blockNumber\<close> and
  \<^verbatim>\<open>AesFinished\<close> still returns false; the event after these, the \<open>blockNumber + 1\<close>-th,
  makes \<^verbatim>\<open>AesFinished\<close> return true and leaves \<open>blockIndex\<close> at \<open>blockNumber + 1\<close>
  (modulo \<open>2^16\<close>).
\<close>

theorem completion_count:
  assumes "s1 = AesCtr128 dev key inp out n ctr fo init s" and "ctrFuncG s1 = Some f"
    and "unat n < 65536"
  shows "\<exists>sn s'. events dev E (unat n) s1 = Some sn \<and> \<not> AesFinished sn \<and>
           unat (blockIndex sn) = unat n \<and>
           events dev E (unat n + 1) s1 = Some s' \<and> AesFinished s' \<and>
           blockIndex s' = ucast n + 1"
proof -
  have st: "blockIndex s1 = 0" "\<not> aesFinished s1" "AES_RUNNING (AES s1)"
    and nb: "numberOfBlocks s1 = ucast n"
    by (simp_all add: assms(1) AesCtr128_start)
  have N: "unat (numberOfBlocks s1) = unat n"
    using assms(3) by (simp add: nb unat_ucast_u16)
  from run_control [OF st assms(2) order_refl, of dev E, unfolded N]
  obtain sn where sn: "events dev E (unat n) s1 = Some sn" "\<not> aesFinished sn"
      "unat (blockIndex sn) = unat n"
    by blast
  from run_finish [OF st assms(2), of dev E, unfolded N]
  obtain s' where "events dev E (Suc (unat n)) s1 = Some s'" "aesFinished s'"
      "blockIndex s' = numberOfBlocks s1 + 1"
    by blast
  then have s': "events dev E (unat n + 1) s1 = Some s'" "aesFinished s'"
      "blockIndex s' = ucast n + 1"
    by (simp_all add: nb)
  from sn s' show ?thesis
    by (auto simp: AesFinished_def)
qed

text \<open>The theorem on a chunk of three blocks.\<close>

theorem completion_count_witness:
  "ctrFuncG (AesCtr128 efm32gg 0 0x20000000 0x20000000 3 0x20000100 (Some ctr_inc8) True
      (startup (\<lambda>a. 0) engine_reset (\<lambda>i. 0))) = Some ctr_inc8 \<and>
   (\<exists>sn s'. events efm32gg (\<lambda>k d. d) 3
        (AesCtr128 efm32gg 0 0x20000000 0x20000000 3 0x20000100 (Some ctr_inc8) True
          (startup (\<lambda>a. 0) engine_reset (\<lambda>i. 0))) = Some sn \<and>
      \<not> AesFinished sn \<and> blockIndex sn = 3 \<and>
      events efm32gg (\<lambda>k d. d) 4
        (AesCtr128 efm32gg 0 0x20000000 0x20000000 3 0x20000100 (Some ctr_inc8) True
          (startup (\<lambda>a. 0) engine_reset (\<lambda>i. 0))) = Some s' \<and>
      AesFinished s' \<and> blockIndex s' = 4)"
  using completion_count [OF refl AesCtr128_ctrFuncG_init _,
      where dev = efm32gg and key = 0 and inp = "0x20000000" and out = "0x20000000" and n = 3
        and ctr = "0x20000100" and f = ctr_inc8
        and s = "startup (\<lambda>a. 0) engine_reset (\<lambda>i. 0)" and E = "\<lambda>k d. d"]
  by (simp add: AesCtr128_ctrFuncG_init word_unat_eq_iff)

text \<open>
  C2 as stated fails: after exactly one completion event on a chunk of one block,
  \<^verbatim>\<open>AesFinished\<close> returns false.
\<close>

theorem completion_count_counterexample:
  "\<exists>s'. events efm32gg (\<lambda>k d. d) 1
        (AesCtr128 efm32gg 0 0x20000000 0x20000000 1 0x20000100 (Some ctr_inc8) True
          (startup (\<lambda>a. 0) engine_reset (\<lambda>i. 0))) = Some s' \<and>
      \<not> AesFinished s' \<and> blockIndex s' = 1"
proof -
  let ?s1 = "AesCtr128 efm32gg 0 0x20000000 0x20000000 1 0x20000100 (Some ctr_inc8) True
          (startup (\<lambda>a. 0) engine_reset (\<lambda>i. 0))"
  have st: "blockIndex ?s1 = 0" "\<not> aesFinished ?s1" "AES_RUNNING (AES ?s1)"
      "ctrFuncG ?s1 = Some ctr_inc8" "numberOfBlocks ?s1 = 1"
    by (simp_all add: AesCtr128_init_eq)
  have "1 \<le> unat (numberOfBlocks ?s1)" by (simp add: st(5))
  from run_control [OF st(1-4) this, of efm32gg "\<lambda>k d. d"]
  show ?thesis by (auto simp: AesFinished_def word_unat_eq_iff)
qed

subsection \<open>C3: the calls of the counter function\<close>

text \<open>
  C3. The claim: between the call and the end of the chunk the counter function is called
  exactly as many times as the chunk has blocks, and the counter at the end is the counter
  at the call advanced that many times. The code departs from it where \<open>blockNumber\<close>
  does not fit the 16-bit static \<^verbatim>\<open>numberOfBlocks\<close>. A chunk started with
  \<open>blockNumber = 65536\<close> stores the block count 0: the first completion event finishes it
  without a single call of the counter function and with memory, hence the counter,
  unchanged, and no further event can occur, where the claim asks for 65536 calls.
\<close>

theorem counter_truncated_chunk:
  "\<exists>s'. events efm32gg (\<lambda>k d. d) 1
        (AesCtr128 efm32gg 0 0x80000000 0x84000000 65536 0x20000000 (Some ctr_inc8) True
          (startup (\<lambda>a. 0) engine_reset (\<lambda>i. 0))) = Some s' \<and>
      AesFinished s' \<and> ctrFuncCalls s' = 0 \<and> mem s' = (\<lambda>a. 0) \<and>
      completion_event efm32gg (\<lambda>k d. d) s' = None \<and>
      ctrFuncCalls s' \<noteq> unat (65536 :: u32)"
proof -
  let ?s1 = "AesCtr128 efm32gg 0 0x80000000 0x84000000 65536 0x20000000 (Some ctr_inc8) True
      (startup (\<lambda>a. 0) engine_reset (\<lambda>i. 0))"
  have z: "AES_RUNNING (AES ?s1)" "\<not> blockIndex ?s1 < numberOfBlocks ?s1"
    and c: "ctrFuncCalls ?s1 = 0" "mem ?s1 = (\<lambda>a. 0)"
    by (simp_all add: AesCtr128_init_eq startup_def)
  have "events efm32gg (\<lambda>k d. d) 1 ?s1 = completion_event efm32gg (\<lambda>k d. d) ?s1"
    by simp
  then show ?thesis
    unfolding completion_event_last [OF z]
    by (simp add: AesFinished_def completion_event_idle c)
qed

subsection \<open>C4: the invariant of the stream state\<close>

text \<open>
  C4, as amended. In every state reached from one call by any number of completion events,
  the block count is the one the call stored; while \<open>aesFinished\<close> is false,
  \<open>blockIndex \<le> numberOfBlocks\<close> and the two cursors are the buffer addresses given to the
  call plus \<open>blockIndex\<close> times 16 bytes; once \<open>aesFinished\<close> is true, \<open>blockIndex\<close> is
  \<open>numberOfBlocks + 1\<close> (modulo \<open>2^16\<close>).
\<close>

theorem stream_state_invariant:
  assumes "s1 = AesCtr128 dev key inp out n ctr fo init s" and "events dev E k s1 = Some s'"
  shows "numberOfBlocks s' = numberOfBlocks s1 \<and>
         (\<not> aesFinished s' \<longrightarrow>
            blockIndex s' \<le> numberOfBlocks s' \<and>
            inputDataG s' = inp + 16 * ucast (blockIndex s') \<and>
            outputDataG s' = out + 16 * ucast (blockIndex s')) \<and>
         (aesFinished s' \<longrightarrow> blockIndex s' = numberOfBlocks s' + 1)"
proof -
  have st: "blockIndex s1 = 0" "\<not> aesFinished s1" "AES_RUNNING (AES s1)"
    and nb: "inputDataG s1 = inp" "outputDataG s1 = out"
    by (simp_all add: assms(1) AesCtr128_start)
  from reachable_cases [OF st assms(2)]
  have nb': "numberOfBlocks s' = numberOfBlocks s1"
    and cases: "k \<le> unat (numberOfBlocks s1) \<and> unat (blockIndex s') = k \<and> \<not> aesFinished s' \<and>
       inputDataG s' = inputDataG s1 + 16 * of_nat k \<and>
       outputDataG s' = outputDataG s1 + 16 * of_nat k
     \<or> aesFinished s' \<and> blockIndex s' = numberOfBlocks s1 + 1"
    by auto
  from cases show ?thesis
  proof
    assume a: "k \<le> unat (numberOfBlocks s1) \<and> unat (blockIndex s') = k \<and> \<not> aesFinished s' \<and>
       inputDataG s' = inputDataG s1 + 16 * of_nat k \<and>
       outputDataG s' = outputDataG s1 + 16 * of_nat k"
    then have "blockIndex s' \<le> numberOfBlocks s'"
      by (simp add: word_le_nat_alt nb')
    moreover from a have "(of_nat k :: u32) = ucast (blockIndex s')"
      using of_nat_unat_u16 [of "blockIndex s'"] by simp
    ultimately show ?thesis
      using a by (simp add: nb nb')
  next
    assume "aesFinished s' \<and> blockIndex s' = numberOfBlocks s1 + 1"
    then show ?thesis
      by (simp add: nb nb')
  qed
qed

text \<open>The theorem after two events of a chunk of three blocks.\<close>

theorem stream_state_invariant_witness:
  "\<exists>s'. events efm32gg (\<lambda>k d. d) 2
        (AesCtr128 efm32gg 0 0x20000000 0x20000000 3 0x20000100 (Some ctr_inc8) True
          (startup (\<lambda>a. 0) engine_reset (\<lambda>i. 0))) = Some s' \<and>
      numberOfBlocks s' = 3 \<and> \<not> aesFinished s' \<and> blockIndex s' = 2 \<and>
      blockIndex s' \<le> numberOfBlocks s' \<and>
      inputDataG s' = 0x20000020 \<and> outputDataG s' = 0x20000020"
proof -
  let ?s1 = "AesCtr128 efm32gg 0 0x20000000 0x20000000 3 0x20000100 (Some ctr_inc8) True
          (startup (\<lambda>a. 0) engine_reset (\<lambda>i. 0))"
  have st: "blockIndex ?s1 = 0" "\<not> aesFinished ?s1" "AES_RUNNING (AES ?s1)"
      "ctrFuncG ?s1 = Some ctr_inc8" "numberOfBlocks ?s1 = 3"
    by (simp_all add: AesCtr128_init_eq)
  have "2 \<le> unat (numberOfBlocks ?s1)" by (simp add: st(5))
  from run_control [OF st(1-4) this, of efm32gg "\<lambda>k d. d"]
  obtain s' where s': "events efm32gg (\<lambda>k d. d) 2 ?s1 = Some s'" "\<not> aesFinished s'"
      "unat (blockIndex s') = 2"
    by blast
  from s'(3) have b: "blockIndex s' = 2" by (simp add: word_unat_eq_iff)
  from stream_state_invariant [OF refl s'(1)] s' b show ?thesis
    by (simp add: st(5))
qed

text \<open>
  C4 as stated fails: on a chunk of one block, the second completion event leaves
  \<open>blockIndex\<close> at 2, above the block count 1.
\<close>

theorem stream_state_invariant_counterexample:
  "\<exists>s'. events efm32gg (\<lambda>k d. d) 2
        (AesCtr128 efm32gg 0 0x20000000 0x20000000 1 0x20000100 (Some ctr_inc8) True
          (startup (\<lambda>a. 0) engine_reset (\<lambda>i. 0))) = Some s' \<and>
      numberOfBlocks s' = 1 \<and> blockIndex s' = 2 \<and> \<not> blockIndex s' \<le> numberOfBlocks s'"
proof -
  let ?s1 = "AesCtr128 efm32gg 0 0x20000000 0x20000000 1 0x20000100 (Some ctr_inc8) True
          (startup (\<lambda>a. 0) engine_reset (\<lambda>i. 0))"
  have st: "blockIndex ?s1 = 0" "\<not> aesFinished ?s1" "AES_RUNNING (AES ?s1)"
      "ctrFuncG ?s1 = Some ctr_inc8"
    and nb: "numberOfBlocks ?s1 = 1"
    by (simp_all add: AesCtr128_init_eq)
  have two: "Suc (unat (numberOfBlocks ?s1)) = 2"
    by (simp add: nb)
  from run_finish [OF st, of efm32gg "\<lambda>k d. d", unfolded two]
  obtain s' where s': "events efm32gg (\<lambda>k d. d) 2 ?s1 = Some s'"
      "blockIndex s' = numberOfBlocks ?s1 + 1" "numberOfBlocks s' = numberOfBlocks ?s1"
    by blast
  have "\<not> (2 :: u16) \<le> 1"
    by (simp add: word_le_nat_alt)
  with s' show ?thesis
    by (simp add: nb)
qed

subsection \<open>C5: the final event\<close>

text \<open>
  C5. When the handler runs with \<open>blockIndex \<ge> numberOfBlocks\<close> it returns, and apart from
  acknowledging the interrupt flag, as every invocation does first, it only sets
  \<open>aesFinished\<close> and increments \<open>blockIndex\<close> (modulo \<open>2^16\<close>): memory (so the counter value
  and the output buffer), the counter pointer and function, the number of calls made
  through it, both cursors, the block count, and the engine's data register, running
  flag, key and configuration are unchanged. No word is written to \<^verbatim>\<open>DATA\<close>, so nothing is
  submitted.
\<close>

theorem final_event_frame:
  assumes "numberOfBlocks s \<le> blockIndex s"
  shows "\<exists>s'. AES_IRQHandler dev s = Some s' \<and>
           s' = s\<lparr>AES := write_IFC (AES_IFC_DONE dev) (AES s), aesFinished := True,
                  blockIndex := blockIndex s + 1\<rparr> \<and>
           aesFinished s' \<and> blockIndex s' = blockIndex s + 1 \<and>
           mem s' = mem s \<and> ctrG s' = ctrG s \<and> ctrFuncG s' = ctrFuncG s \<and>
           ctrFuncCalls s' = ctrFuncCalls s \<and>
           inputDataG s' = inputDataG s \<and> outputDataG s' = outputDataG s \<and>
           numberOfBlocks s' = numberOfBlocks s \<and>
           AES_DATA (AES s') = AES_DATA (AES s) \<and> AES_RUNNING (AES s') = AES_RUNNING (AES s) \<and>
           AES_KEY (AES s') = AES_KEY (AES s) \<and> AES_CTRL (AES s') = AES_CTRL (AES s) \<and>
           AES_IEN (AES s') = AES_IEN (AES s) \<and> NVIC_ISER s' = NVIC_ISER s"
proof -
  from assms have "\<not> blockIndex s < numberOfBlocks s"
    by (simp add: not_less)
  then show ?thesis
    by (simp add: AES_IRQHandler_def Let_def write_IFC_def)
qed

text \<open>The theorem at the start-up state, where both \<open>blockIndex\<close> and the block count are 0.\<close>

theorem final_event_frame_witness:
  "numberOfBlocks (startup (\<lambda>a. 0) engine_reset (\<lambda>i. 0)) \<le>
     blockIndex (startup (\<lambda>a. 0) engine_reset (\<lambda>i. 0)) \<and>
   (\<exists>s'. AES_IRQHandler efm32gg (startup (\<lambda>a. 0) engine_reset (\<lambda>i. 0)) = Some s' \<and>
      aesFinished s' \<and> blockIndex s' = 1 \<and> mem s' = (\<lambda>a. 0) \<and>
      AES_RUNNING (AES s') = False)"
  using final_event_frame [of "startup (\<lambda>a. 0) engine_reset (\<lambda>i. 0)" efm32gg]
  by (simp add: startup_def engine_reset_def)

subsection \<open>C6: a chunk of a running session\<close>

text \<open>
  C6. A call with \<open>initDecryption\<close> false changes exactly this: it stores the two buffer
  addresses and the block count, resets \<open>blockIndex\<close> to 0 and \<open>aesFinished\<close> to false, and
  submits the counter found at the stored counter address to the engine. The key buffer,
  the engine's control, interrupt-enable and flag registers, the interrupt controller,
  memory (so the counter value), and the stored counter pointer and function are unchanged,
  whatever key, counter pointer and function are passed.
\<close>

theorem session_reuse_frame:
  "AesCtr128 dev key inp out n ctr f False s =
     s\<lparr>inputDataG := inp, outputDataG := out, numberOfBlocks := ucast n, blockIndex := 0,
       aesFinished := False,
       AES := (AES s)\<lparr>AES_DATA := ctr_block (mem s) (ctrG s), AES_RUNNING := True\<rparr>\<rparr> \<and>
   AES_KEY (AES (AesCtr128 dev key inp out n ctr f False s)) = AES_KEY (AES s) \<and>
   AES_CTRL (AES (AesCtr128 dev key inp out n ctr f False s)) = AES_CTRL (AES s) \<and>
   AES_IEN (AES (AesCtr128 dev key inp out n ctr f False s)) = AES_IEN (AES s) \<and>
   AES_IF (AES (AesCtr128 dev key inp out n ctr f False s)) = AES_IF (AES s) \<and>
   NVIC_ISER (AesCtr128 dev key inp out n ctr f False s) = NVIC_ISER s \<and>
   mem (AesCtr128 dev key inp out n ctr f False s) = mem s \<and>
   ctrG (AesCtr128 dev key inp out n ctr f False s) = ctrG s \<and>
   ctrFuncG (AesCtr128 dev key inp out n ctr f False s) = ctrFuncG s \<and>
   ctrFuncCalls (AesCtr128 dev key inp out n ctr f False s) = ctrFuncCalls s"
  by (simp add: AesCtr128_reuse_eq)

subsection \<open>C7: a chunk of no blocks\<close>

text \<open>
  C7. A call with \<open>blockNumber = 0\<close> never fails (the function has no failing path). It
  leaves \<open>aesFinished\<close> false and submits the counter; the completion event of that
  submission then sets \<open>aesFinished\<close>, with no call of the counter function and memory,
  hence the counter, unchanged, and no further event can follow. This holds for every
  such call, initialising or not.
\<close>

theorem zero_block_chunk:
  "\<not> AesFinished (AesCtr128 dev key inp out 0 ctr f init s) \<and>
   (\<exists>s'. completion_event dev E (AesCtr128 dev key inp out 0 ctr f init s) = Some s' \<and>
      AesFinished s' \<and> ctrFuncCalls s' = ctrFuncCalls s \<and> mem s' = mem s \<and>
      ctrG s' = ctrG (AesCtr128 dev key inp out 0 ctr f init s) \<and>
      completion_event dev E s' = None)"
proof -
  let ?s1 = "AesCtr128 dev key inp out 0 ctr f init s"
  have z: "\<not> blockIndex ?s1 < numberOfBlocks ?s1" "AES_RUNNING (AES ?s1)"
    by (simp_all add: AesCtr128_start)
  show ?thesis
    by (simp add: completion_event_last [OF z(2) z(1)] AesFinished_def AesCtr128_start
          completion_event_idle)
qed

subsection \<open>C8: no error path\<close>

text \<open>
  C8, as amended. \<^verbatim>\<open>AesCtr128\<close> checks neither a capacity (it is given none) nor the
  existence of a session, and has no failing path: every call, whatever its arguments and
  the state it is made in, stores the two buffer addresses, resets \<open>blockIndex\<close> and
  \<open>aesFinished\<close>, and writes the 16 bytes at the counter address in force to the data
  register of the engine.
\<close>

theorem no_error_path:
  "blockIndex (AesCtr128 dev key inp out n ctr f init s) = 0 \<and>
   \<not> aesFinished (AesCtr128 dev key inp out n ctr f init s) \<and>
   inputDataG (AesCtr128 dev key inp out n ctr f init s) = inp \<and>
   outputDataG (AesCtr128 dev key inp out n ctr f init s) = out \<and>
   AES_DATA (AES (AesCtr128 dev key inp out n ctr f init s)) =
     ctr_block (mem s) (ctrG (AesCtr128 dev key inp out n ctr f init s))"
  by (simp add: AesCtr128_start)

text \<open>
  C8 as stated fails: at start-up, where no session exists, a call with \<open>initDecryption\<close>
  false and 8 blocks does not leave the state untouched. The block count changes from 0 to
  8 and the two cursors from null to the buffer addresses.
\<close>

theorem session_check_counterexample:
  "numberOfBlocks (startup (\<lambda>a. 0) engine_reset (\<lambda>i. 0)) = 0 \<and>
   numberOfBlocks (AesCtr128 efm32gg 0 0x20000000 0x20000100 8 0 None False
      (startup (\<lambda>a. 0) engine_reset (\<lambda>i. 0))) = 8 \<and>
   inputDataG (startup (\<lambda>a. 0) engine_reset (\<lambda>i. 0)) = 0 \<and>
   inputDataG (AesCtr128 efm32gg 0 0x20000000 0x20000100 8 0 None False
      (startup (\<lambda>a. 0) engine_reset (\<lambda>i. 0))) = 0x20000000 \<and>
   outputDataG (startup (\<lambda>a. 0) engine_reset (\<lambda>i. 0)) = 0 \<and>
   outputDataG (AesCtr128 efm32gg 0 0x20000000 0x20000100 8 0 None False
      (startup (\<lambda>a. 0) engine_reset (\<lambda>i. 0))) = 0x20000100 \<and>
   (8 :: u16) \<noteq> 0"
  by (simp add: AesCtr128_reuse_eq startup_def)

subsection \<open>C9: the block count is truncated to 16 bits\<close>

text \<open>
  C9. The call stores the low 16 bits of \<open>blockNumber\<close>, so the stored count is
  \<open>N = blockNumber mod 2^16\<close> and the call returns the very state it returns for
  \<open>blockNumber AND 0xFFFF\<close>; for a multiple of 65536 that is the state of a chunk of no
  blocks. With a non-null counter function exactly \<open>N\<close> blocks are processed: the chunk
  finishes at event \<open>N + 1\<close> and no further event occurs; the counter function has then
  been called \<open>N\<close> times; both cursors stand \<open>N\<close> blocks of 16 bytes behind the buffer
  addresses; and memory is the memory at the call after \<open>N\<close> rounds of advancing the
  counter and combining one block, no more. Where the counter function keeps to its
  contract and counter and buffers lie apart, this means that each of the first \<open>N\<close>
  output blocks is the combination for its index and that no byte outside the counter and
  these \<open>N\<close> output blocks has changed.
\<close>

theorem block_count_truncation:
  assumes "s1 = AesCtr128 dev key inp out n ctr fo init s"
  shows "numberOfBlocks s1 = ucast n \<and> unat (numberOfBlocks s1) = unat n mod 65536 \<and>
         s1 = AesCtr128 dev key inp out (n AND 0xFFFF) ctr fo init s \<and>
         AesCtr128 dev key inp out (65536 * j) ctr fo init s =
           AesCtr128 dev key inp out 0 ctr fo init s \<and>
         (\<forall>f. ctrFuncG s1 = Some f \<longrightarrow>
            (\<exists>s'. events dev E (unat n mod 65536 + 1) s1 = Some s' \<and> AesFinished s' \<and>
               ctrFuncCalls s' = ctrFuncCalls s + unat n mod 65536 \<and>
               inputDataG s' = inp + 16 * of_nat (unat n mod 65536) \<and>
               outputDataG s' = out + 16 * of_nat (unat n mod 65536) \<and>
               mem s' = blocks_mem E (AES_KEY (AES s1)) f (ctrG s1) inp out (mem s)
                          (unat n mod 65536) \<and>
               (counter_strategy f (ctrG s1) \<and>
                region (ctrG s1) 16 \<inter> region out (16 * (unat n mod 65536)) = {} \<and>
                region (ctrG s1) 16 \<inter> region inp (16 * (unat n mod 65536)) = {} \<and>
                (inp = out \<or>
                 region inp (16 * (unat n mod 65536)) \<inter>
                 region out (16 * (unat n mod 65536)) = {}) \<longrightarrow>
                (\<forall>i. i < unat n mod 65536 \<longrightarrow>
                   mem_block (mem s') (out + 16 * of_nat i) =
                     combine (keystream E (AES_KEY (AES s1)) f (ctrG s1) (mem s) i)
                       (mem_block (mem s) (inp + 16 * of_nat i))) \<and>
                (\<forall>a. a \<notin> region (ctrG s1) 16 \<longrightarrow>
                   a \<notin> region out (16 * (unat n mod 65536)) \<longrightarrow> mem s' a = mem s a)) \<and>
               events dev E (unat n mod 65536 + 2) s1 = None))"
proof -
  let ?N = "unat n mod 65536"
  have st: "blockIndex s1 = 0" "\<not> aesFinished s1" "AES_RUNNING (AES s1)"
    and nb: "numberOfBlocks s1 = ucast n" and c: "ctrFuncCalls s1 = ctrFuncCalls s"
    and io: "inputDataG s1 = inp" "outputDataG s1 = out" "mem s1 = mem s"
    and data: "AES_DATA (AES s1) = ctr_block (mem s1) (ctrG s1)"
    by (simp_all add: assms AesCtr128_start)
  have N: "unat (numberOfBlocks s1) = ?N"
    by (simp add: nb unat_ucast_u16)
  have "(ucast (n AND mask 16) :: u16) = ucast n"
    by (rule bit_word_eqI) (auto simp: bit_simps)
  then have m: "(ucast (n AND 0xFFFF) :: u16) = ucast n"
    by (simp add: mask_eq_exp_minus_1)
  have "(65536 * unat j mod 4294967296) mod 65536 = (65536 * unat j) mod 65536"
    by (rule mod_mod_cancel) simp
  then have z: "(ucast (65536 * j :: u32) :: u16) = ucast (0 :: u32)"
    by (simp add: word_unat_eq_iff unat_ucast_u16 unat_word_ariths)
  have same: "\<And>a b. (ucast (a :: u32) :: u16) = ucast b \<Longrightarrow>
      AesCtr128 dev key inp out a ctr fo init s = AesCtr128 dev key inp out b ctr fo init s"
    by (cases init) (simp_all add: AesCtr128_reuse_eq AesCtr128_init_eq)
  have run: "\<exists>s'. events dev E (?N + 1) s1 = Some s' \<and> AesFinished s' \<and>
               ctrFuncCalls s' = ctrFuncCalls s + ?N \<and>
               inputDataG s' = inp + 16 * of_nat ?N \<and>
               outputDataG s' = out + 16 * of_nat ?N \<and>
               mem s' = blocks_mem E (AES_KEY (AES s1)) f (ctrG s1) inp out (mem s) ?N \<and>
               (counter_strategy f (ctrG s1) \<and>
                region (ctrG s1) 16 \<inter> region out (16 * ?N) = {} \<and>
                region (ctrG s1) 16 \<inter> region inp (16 * ?N) = {} \<and>
                (inp = out \<or> region inp (16 * ?N) \<inter> region out (16 * ?N) = {}) \<longrightarrow>
                (\<forall>i. i < ?N \<longrightarrow>
                   mem_block (mem s') (out + 16 * of_nat i) =
                     combine (keystream E (AES_KEY (AES s1)) f (ctrG s1) (mem s) i)
                       (mem_block (mem s) (inp + 16 * of_nat i))) \<and>
                (\<forall>a. a \<notin> region (ctrG s1) 16 \<longrightarrow>
                   a \<notin> region out (16 * ?N) \<longrightarrow> mem s' a = mem s a)) \<and>
               events dev E (?N + 2) s1 = None"
    if f: "ctrFuncG s1 = Some f" for f
  proof -
    from run_finish [OF st f, of dev E, unfolded N]
    obtain sn s' where sn: "events dev E ?N s1 = Some sn"
        and s': "events dev E (Suc ?N) s1 = Some s'" "aesFinished s'" "mem s' = mem sn"
          "ctrFuncCalls s' = ctrFuncCalls s1 + ?N"
      by blast
    from run_finish_cursors [OF st f, of dev E, unfolded N io] s'(1)
    have cur: "inputDataG s' = inp + 16 * of_nat ?N" "outputDataG s' = out + 16 * of_nat ?N"
      by auto
    from run_mem_exact [OF st f data, of ?N dev E sn, unfolded N io] sn
    have ex: "mem s' = blocks_mem E (AES_KEY (AES s1)) f (ctrG s1) inp out (mem s) ?N"
      by (simp add: s'(3))
    have stop: "events dev E (?N + 2) s1 = None"
      using run_stops [OF st f, of "?N + 2" dev E, unfolded N] by simp
    have contract: "(\<forall>i. i < ?N \<longrightarrow>
                   mem_block (mem s') (out + 16 * of_nat i) =
                     combine (keystream E (AES_KEY (AES s1)) f (ctrG s1) (mem s) i)
                       (mem_block (mem s) (inp + 16 * of_nat i))) \<and>
                (\<forall>a. a \<notin> region (ctrG s1) 16 \<longrightarrow>
                   a \<notin> region out (16 * ?N) \<longrightarrow> mem s' a = mem s a)"
      if h: "counter_strategy f (ctrG s1)"
        "region (ctrG s1) 16 \<inter> region out (16 * ?N) = {}"
        "region (ctrG s1) 16 \<inter> region inp (16 * ?N) = {}"
        "inp = out \<or> region inp (16 * ?N) \<inter> region out (16 * ?N) = {}"
    proof (intro conjI allI impI)
      fix i assume i: "i < ?N"
      then have "i < Suc ?N" by simp
      from chunk_blocks_combined [OF assms f h(1) h(2) [folded N] h(3) [folded N]
          h(4) [folded N] i [folded N] this s'(1)]
      show "mem_block (mem s') (out + 16 * of_nat i) =
          combine (keystream E (AES_KEY (AES s1)) f (ctrG s1) (mem s) i)
            (mem_block (mem s) (inp + 16 * of_nat i))" .
    next
      fix a assume a: "a \<notin> region (ctrG s1) 16" "a \<notin> region out (16 * ?N)"
      from run_memory [OF st f data h(1), unfolded io N, OF h(2) order_refl sn] a
      show "mem s' a = mem s a"
        by (simp add: s'(3))
    qed
    have "events dev E (?N + 1) s1 = Some s'" "AesFinished s'"
        "ctrFuncCalls s' = ctrFuncCalls s + ?N"
      using s' by (simp_all add: AesFinished_def c)
    with cur ex stop contract show ?thesis
      by blast
  qed
  have a: "s1 = AesCtr128 dev key inp out (n AND 0xFFFF) ctr fo init s"
    unfolding assms by (rule same [OF m [symmetric]])
  have b: "AesCtr128 dev key inp out (65536 * j) ctr fo init s =
      AesCtr128 dev key inp out 0 ctr fo init s"
    by (rule same [OF z])
  from nb N a b run show ?thesis
    by blast
qed

text \<open>
  The theorem for \<open>blockNumber = 65537\<close>: one block is processed, the cursors stand one
  block behind the buffer addresses, output block 0 is combined and output block 1 is
  untouched.
\<close>

theorem block_count_truncation_witness:
  "numberOfBlocks (AesCtr128 efm32gg 0 0x80000000 0x84000000 65537 0x20000000 (Some ctr_inc8)
      True (startup two_blocks engine_reset (\<lambda>i. 0))) = 1 \<and>
   AesCtr128 efm32gg 0 0x80000000 0x84000000 65537 0x20000000 (Some ctr_inc8)
      True (startup two_blocks engine_reset (\<lambda>i. 0)) =
   AesCtr128 efm32gg 0 0x80000000 0x84000000 1 0x20000000 (Some ctr_inc8)
      True (startup two_blocks engine_reset (\<lambda>i. 0)) \<and>
   (\<exists>s'. events efm32gg (\<lambda>k d. d) 2
        (AesCtr128 efm32gg 0 0x80000000 0x84000000 65537 0x20000000 (Some ctr_inc8)
          True (startup two_blocks engine_reset (\<lambda>i. 0))) = Some s' \<and>
      AesFinished s' \<and> ctrFuncCalls s' = 1 \<and>
      inputDataG s' = 0x80000010 \<and> outputDataG s' = 0x84000010 \<and>
      mem_block (mem s') 0x84000000 = (0x5A, 0, 0, 0) \<and>
      mem_block (mem s') 0x84000010 = (0, 0, 0, 0) \<and>
      events efm32gg (\<lambda>k d. d) 3
        (AesCtr128 efm32gg 0 0x80000000 0x84000000 65537 0x20000000 (Some ctr_inc8)
          True (startup two_blocks engine_reset (\<lambda>i. 0))) = None)"
proof -
  define s0 where "s0 = startup two_blocks engine_reset (\<lambda>i. 0)"
  define s1 where "s1 = AesCtr128 efm32gg 0 0x80000000 0x84000000 65537 0x20000000
      (Some ctr_inc8) True s0"
  let ?E = "\<lambda>(k :: block) (d :: block). d"
  have f: "ctrFuncG s1 = Some ctr_inc8"
    and io: "ctrG s1 = 0x20000000" "mem s0 = two_blocks" "ctrFuncCalls s0 = 0"
    and key: "AES_KEY (AES s1) = (0, 0, 0, 0)"
    by (simp_all add: s1_def s0_def AesCtr128_init_eq startup_def ctr_block_two_blocks)
  have u: "unat (65537 :: u32) mod 65536 = 1" "(65537 :: u32) AND 0xFFFF = 1"
      "ucast (65537 :: u32) = (1 :: u16)"
    by simp_all
  have n1: "(1 :: nat) + 1 = 2" "(1 :: nat) + 2 = 3" "(0 :: nat) + 1 = 1"
      "(16 :: u32) * of_nat 1 = 16" "(16 :: nat) * 1 = 16"
      "(0x80000000 :: u32) + 16 = 0x80000010" "(0x84000000 :: u32) + 16 = 0x84000010"
    by simp_all
  note t = block_count_truncation [OF s1_def, where E = ?E and j = 0, unfolded u n1 io key]
  from t have 1: "numberOfBlocks s1 = 1" by blast
  from t have 2: "s1 = AesCtr128 efm32gg 0 0x80000000 0x84000000 1 0x20000000
      (Some ctr_inc8) True s0" by blast
  have sep: "region (0x20000000 :: u32) 16 \<inter> region 0x84000000 16 = {}"
    by (rule regions_apart) simp_all
  have sep_in: "region (0x20000000 :: u32) 16 \<inter> region 0x80000000 16 = {}"
    by (rule regions_apart) simp_all
  have al: "(0x80000000 :: u32) = 0x84000000 \<or>
      region (0x80000000 :: u32) 16 \<inter> region 0x84000000 16 = {}"
    by (rule disjI2, rule regions_apart) simp_all
  from t f ctr_inc8_strategy [of "0x20000000"] sep sep_in al
  obtain s' where s': "events efm32gg ?E 2 s1 = Some s'" "AesFinished s'"
      "ctrFuncCalls s' = 1" "inputDataG s' = 0x80000010" "outputDataG s' = 0x84000010"
      "\<forall>i. i < 1 \<longrightarrow> mem_block (mem s') (0x84000000 + 16 * of_nat i) =
          combine (keystream ?E (0, 0, 0, 0) ctr_inc8 0x20000000 two_blocks i)
            (mem_block two_blocks (0x80000000 + 16 * of_nat i))"
      "\<forall>a. a \<notin> region 0x20000000 16 \<longrightarrow> a \<notin> region 0x84000000 16 \<longrightarrow>
          mem s' a = two_blocks a"
      "events efm32gg ?E 3 s1 = None"
    by blast
  have e0: "combine (keystream ?E (0, 0, 0, 0) ctr_inc8 0x20000000 two_blocks 0)
        (mem_block two_blocks 0x80000000) = (0x5A, 0, 0, 0)"
    by (simp add: keystream_def ctr_block_two_blocks mem_block_two_blocks REV_def)
  from s'(6) have b0: "mem_block (mem s') 0x84000000 = (0x5A, 0, 0, 0)"
    using e0 by (auto dest: spec [of _ 0])
  have "mem_block (mem s') 0x84000010 = mem_block two_blocks 0x84000010"
  proof (rule mem_block_cong)
    fix x :: u32 assume x: "x \<in> region 0x84000010 16"
    have "region (0x84000000 :: u32) (16 * 1) \<inter> region (0x84000000 + 16 * of_nat 1) 16 = {}"
      by (rule block_after_prefix) simp
    with x have "x \<notin> region 0x84000000 16" by auto
    moreover have "region (0x20000000 :: u32) 16 \<inter> region 0x84000010 16 = {}"
      by (rule regions_apart) simp_all
    with x have "x \<notin> region 0x20000000 16" by blast
    ultimately show "mem s' x = two_blocks x"
      using s'(7) by blast
  qed
  then have b1: "mem_block (mem s') 0x84000010 = (0, 0, 0, 0)"
    by (simp add: mem_block_two_blocks)
  from 1 2 s'(1-5,8) b0 b1 show ?thesis
    unfolding s1_def [symmetric] s0_def [symmetric] by blast
qed

subsection \<open>C10: arguments of a non-initialising call\<close>

text \<open>
  C10. With \<open>initDecryption\<close> false the arguments \<open>key\<close>, \<open>ctr\<close> and \<open>ctrFunc\<close> have no
  effect: two calls that differ only in them give the same state, and the counter pointer,
  the counter function and the key buffer stay as they were.
\<close>

theorem parameter_latching:
  "AesCtr128 dev key inp out n ctr f False s = AesCtr128 dev key' inp out n ctr' f' False s \<and>
   ctrG (AesCtr128 dev key inp out n ctr f False s) = ctrG s \<and>
   ctrFuncG (AesCtr128 dev key inp out n ctr f False s) = ctrFuncG s \<and>
   AES_KEY (AES (AesCtr128 dev key inp out n ctr f False s)) = AES_KEY (AES s)"
  by (simp add: AesCtr128_reuse_eq)

end
